theory Spec2Isabelle
  imports Complex_Main "HOL-Library.Sublist"
begin

section \<open>JavaScript values\<close>

text \<open>
  The three variants of the analyze-news edge function (the plain decision-and-search
  pipeline and the tool-calling pipeline of \<^verbatim>\<open>TechnologyImpact.tsx\<close>, and the grounded
  pipeline of \<^verbatim>\<open>part_002\<close>) work on untyped values that come out of \<^verbatim>\<open>JSON.parse\<close>.

  A number is an IEEE double. Every finite double is a rational, and \<^verbatim>\<open>JSON.parse\<close>
  yields \<^verbatim>\<open>Infinity\<close> for a literal that overflows (\<^verbatim>\<open>1e999\<close>), never \<^verbatim>\<open>NaN\<close>. The sign of
  zero is not kept: \<^verbatim>\<open>-0 === 0\<close>, and \<^verbatim>\<open>JSON.stringify(-0)\<close> is \<^verbatim>\<open>0\<close>.
\<close>

datatype jsnum = Fin rat | PosInf | NegInf

text \<open>
  A string is the list of its code units; a \<^typ>\<open>char\<close> holds a unit below 256.
  An object is the list of its own properties, each key once, as \<^verbatim>\<open>JSON.parse\<close> builds it.
\<close>

datatype json =
    JNull
  | JBool bool
  | JNum jsnum
  | JStr string
  | JArr "json list"
  | JObj "(string \<times> json) list"

text \<open>
  What an expression can evaluate to: \<^verbatim>\<open>undefined\<close>, a parsed value, or the one
  inherited method that the property names of the source can reach, \<^verbatim>\<open>String.prototype.link\<close>
  (the value of \<^verbatim>\<open>r.link\<close> when \<^verbatim>\<open>r\<close> is a string).
\<close>

datatype jsval = Undefined | Val json | StringLink

text \<open>
  Exceptions. \<open>Error m\<close> is \<^verbatim>\<open>new Error(m)\<close> thrown by the source; the others are thrown
  by the platform: a property read on \<^verbatim>\<open>null\<close> or \<^verbatim>\<open>undefined\<close> or a call of something that
  is not a function (\<open>TypeError\<close>), \<^verbatim>\<open>JSON.parse\<close> or \<^verbatim>\<open>json()\<close> on text that is not JSON
  (\<open>SyntaxError\<close>), a rejected \<^verbatim>\<open>fetch\<close> (\<open>FetchRejected\<close>).
\<close>

datatype exn = Error string | TypeError | SyntaxError | FetchRejected

subsection \<open>Truthiness, typeof, property reads\<close>

fun truthy :: "jsval \<Rightarrow> bool" where
  "truthy Undefined = False"
| "truthy (Val JNull) = False"
| "truthy (Val (JBool b)) = b"
| "truthy (Val (JNum (Fin x))) = (x \<noteq> 0)"
| "truthy (Val (JNum PosInf)) = True"
| "truthy (Val (JNum NegInf)) = True"
| "truthy (Val (JStr s)) = (s \<noteq> [])"
| "truthy (Val (JArr xs)) = True"
| "truthy (Val (JObj kvs)) = True"
| "truthy StringLink = True"

fun nullish :: "jsval \<Rightarrow> bool" where
  "nullish Undefined = True"
| "nullish (Val JNull) = True"
| "nullish v = False"

text \<open>\<^verbatim>\<open>a || b\<close> and \<^verbatim>\<open>a ?? b\<close>, for operands whose evaluation cannot throw.\<close>

definition or_else :: "jsval \<Rightarrow> jsval \<Rightarrow> jsval" where
  "or_else a b = (if truthy a then a else b)"

definition coalesce :: "jsval \<Rightarrow> jsval \<Rightarrow> jsval" where
  "coalesce a b = (if nullish a then b else a)"

fun is_string :: "jsval \<Rightarrow> bool" where
  "is_string (Val (JStr s)) = True"
| "is_string v = False"

text \<open>
  \<^verbatim>\<open>x.name\<close>, for the property names of the source (none of them is inherited by an
  object, an array, a number or a boolean; a string inherits \<^verbatim>\<open>link\<close>).
\<close>

fun getProp :: "jsval \<Rightarrow> string \<Rightarrow> exn + jsval" where
  "getProp Undefined name = Inl TypeError"
| "getProp (Val JNull) name = Inl TypeError"
| "getProp (Val (JObj kvs)) name =
     Inr (case map_of kvs name of None \<Rightarrow> Undefined | Some v \<Rightarrow> Val v)"
| "getProp (Val (JStr s)) name = Inr (if name = ''link'' then StringLink else Undefined)"
| "getProp v name = Inr Undefined"

text \<open>\<^verbatim>\<open>x?.name\<close> and \<^verbatim>\<open>x?.[0]\<close>: \<^verbatim>\<open>undefined\<close> on \<^verbatim>\<open>null\<close> and \<^verbatim>\<open>undefined\<close>, never a throw.\<close>

definition optProp :: "jsval \<Rightarrow> string \<Rightarrow> jsval" where
  "optProp v name = (case getProp v name of Inl e \<Rightarrow> Undefined | Inr r \<Rightarrow> r)"

fun optIndex0 :: "jsval \<Rightarrow> jsval" where
  "optIndex0 (Val (JArr xs)) = (case xs of [] \<Rightarrow> Undefined | x # rest \<Rightarrow> Val x)"
| "optIndex0 (Val (JStr s)) = (case s of [] \<Rightarrow> Undefined | c # rest \<Rightarrow> Val (JStr [c]))"
| "optIndex0 (Val (JObj kvs)) = (case map_of kvs ''0'' of None \<Rightarrow> Undefined | Some v \<Rightarrow> Val v)"
| "optIndex0 v = Undefined"

subsection \<open>Math.round, Math.max, Math.min\<close>

text \<open>
  \<^verbatim>\<open>Math.round(x)\<close> is the integer closest to \<^verbatim>\<open>x\<close>, the larger one at a tie: the floor
  of \<open>x + 1/2\<close>. The infinities are left as they are.
\<close>

fun Math_round :: "jsnum \<Rightarrow> jsnum" where
  "Math_round (Fin x) = Fin (of_int \<lfloor>x + 1 / 2\<rfloor>)"
| "Math_round PosInf = PosInf"
| "Math_round NegInf = NegInf"

fun Math_max :: "jsnum \<Rightarrow> jsnum \<Rightarrow> jsnum" where
  "Math_max (Fin a) (Fin b) = Fin (max a b)"
| "Math_max PosInf b = PosInf"
| "Math_max a PosInf = PosInf"
| "Math_max NegInf b = b"
| "Math_max a NegInf = a"

fun Math_min :: "jsnum \<Rightarrow> jsnum \<Rightarrow> jsnum" where
  "Math_min (Fin a) (Fin b) = Fin (min a b)"
| "Math_min NegInf b = NegInf"
| "Math_min a NegInf = NegInf"
| "Math_min PosInf b = b"
| "Math_min a PosInf = a"

section \<open>The sanitizer\<close>

text \<open>
  Every variant builds its response from the parsed candidate \<^verbatim>\<open>analysis\<close> with the same
  four expressions (\<^verbatim>\<open>TechnologyImpact.tsx\<close> lines 299-313 and 633-641, \<^verbatim>\<open>part_002\<close> lines
  222-230 and 293-296).
\<close>

text \<open>
  \<^verbatim>\<open>["real", "fake", "uncertain"].includes(v) ? v : "uncertain"\<close>: \<^verbatim>\<open>includes\<close> compares
  with SameValueZero, which holds between a string and \<^verbatim>\<open>v\<close> only when \<^verbatim>\<open>v\<close> is that string.
\<close>

fun sanVerdict :: "jsval \<Rightarrow> string" where
  "sanVerdict (Val (JStr s)) =
     (if List.member [''real'', ''fake'', ''uncertain''] s then s else ''uncertain'')"
| "sanVerdict v = ''uncertain''"

text \<open>
  \<^verbatim>\<open>typeof v === "number" ? Math.min(100, Math.max(0, Math.round(v))) : 50\<close>
\<close>

fun sanConfidence :: "jsval \<Rightarrow> jsnum" where
  "sanConfidence (Val (JNum x)) = Math_min (Fin 100) (Math_max (Fin 0) (Math_round x))"
| "sanConfidence v = Fin 50"

text \<open>\<^verbatim>\<open>typeof v === "string" ? v : "Analysis complete."\<close>\<close>

fun sanExplanation :: "jsval \<Rightarrow> string" where
  "sanExplanation (Val (JStr s)) = s"
| "sanExplanation v = ''Analysis complete.''"

text \<open>\<^verbatim>\<open>Array.isArray(v) ? v.filter((f) => typeof f === "string") : []\<close>\<close>

fun stringsOf :: "json list \<Rightarrow> string list" where
  "stringsOf [] = []"
| "stringsOf (JStr s # xs) = s # stringsOf xs"
| "stringsOf (x # xs) = stringsOf xs"

fun sanRedFlags :: "jsval \<Rightarrow> string list" where
  "sanRedFlags (Val (JArr xs)) = stringsOf xs"
| "sanRedFlags v = []"

record verdict_fields =
  verdict :: string
  confidence :: jsnum
  explanation :: string
  redFlags :: "string list"

text \<open>
  The four reads \<^verbatim>\<open>analysis.verdict\<close>, \<^verbatim>\<open>analysis.confidence\<close>,
  \<^verbatim>\<open>analysis.explanation\<close>, \<^verbatim>\<open>analysis.redFlags\<close> throw a TypeError when the candidate is
  \<^verbatim>\<open>null\<close>; on every other value they yield the property or \<^verbatim>\<open>undefined\<close>.
\<close>

text \<open>Sequencing of steps that can throw.\<close>

definition bindE :: "exn + 'a \<Rightarrow> ('a \<Rightarrow> exn + 'b) \<Rightarrow> exn + 'b" where
  "bindE m f = (case m of Inl e \<Rightarrow> Inl e | Inr x \<Rightarrow> f x)"

definition sanitize :: "json \<Rightarrow> exn + verdict_fields" where
  "sanitize analysis =
     bindE (getProp (Val analysis) ''verdict'') (\<lambda>v.
     bindE (getProp (Val analysis) ''confidence'') (\<lambda>c.
     bindE (getProp (Val analysis) ''explanation'') (\<lambda>x.
     bindE (getProp (Val analysis) ''redFlags'') (\<lambda>f.
       Inr \<lparr>verdict = sanVerdict v, confidence = sanConfidence c,
            explanation = sanExplanation x, redFlags = sanRedFlags f\<rparr>))))"


section \<open>Strings\<close>

text \<open>
  White space and line terminators, as \<^verbatim>\<open>trim()\<close> and the class \<^verbatim>\<open>\s\<close> read them: tab, line
  feed, vertical tab, form feed, carriage return, space and the no-break space (the
  remaining ones are code units above 255).
\<close>

definition is_ws :: "char \<Rightarrow> bool" where
  "is_ws c = List.member [9, 10, 11, 12, 13, 32, 160 :: nat] (of_char c)"

definition trim :: "string \<Rightarrow> string" where
  "trim s = rev (dropWhile is_ws (rev (dropWhile is_ws s)))"

text \<open>\<^verbatim>\<open>s.startsWith(t)\<close> and \<^verbatim>\<open>s.includes(t)\<close>, by a scan from the left.\<close>

fun startsWith :: "string \<Rightarrow> string \<Rightarrow> bool" where
  "startsWith s [] = True"
| "startsWith [] (d # t) = False"
| "startsWith (c # s) (d # t) = (c = d \<and> startsWith s t)"

fun includesStr :: "string \<Rightarrow> string \<Rightarrow> bool" where
  "includesStr [] t = (t = [])"
| "includesStr (c # s) t = (startsWith (c # s) t \<or> includesStr s t)"

text \<open>
  The text before and the text after the first occurrence of \<open>t\<close> in \<open>s\<close>
  (\<^verbatim>\<open>indexOf\<close>), if there is one.
\<close>

fun cut :: "string \<Rightarrow> string \<Rightarrow> (string \<times> string) option" where
  "cut t [] = (if t = [] then Some ([], []) else None)"
| "cut t (c # s) =
     (if startsWith (c # s) t then Some ([], drop (length t) (c # s))
      else map_option (\<lambda>(pre, post). (c # pre, post)) (cut t s))"

fun join :: "string \<Rightarrow> string list \<Rightarrow> string" where
  "join sep [] = []"
| "join sep [x] = x"
| "join sep (x # y # xs) = x @ sep @ join sep (y # xs)"

text \<open>
  Group 1 of the first match of \<^verbatim>\<open>/```(?:json)?\s*([\s\S]*?)```/\<close>. The match starts at the
  first fence. After it the greedy \<^verbatim>\<open>(?:json)?\<close> and \<^verbatim>\<open>\s*\<close> take what they can, and the lazy
  group runs to the next fence. Backtracking finds nothing else: what the greedy parts
  give back holds no backquote, so a closing fence lies behind all of it or nowhere, and
  a later start has a closing fence only if the first one has.
\<close>

definition fence :: string where
  "fence = [CHR 0x60, CHR 0x60, CHR 0x60]"

definition fenced :: "string \<Rightarrow> string option" where
  "fenced content =
     (case cut fence content of
        None \<Rightarrow> None
      | Some (pre, rest) \<Rightarrow>
          map_option fst
            (cut fence
               (dropWhile is_ws (if startsWith rest ''json'' then drop 4 rest else rest))))"

section \<open>The platform\<close>

text \<open>
  What a request meets outside the source: the two secrets of the environment
  (\<^verbatim>\<open>Deno.env.get\<close>), the engine's \<^verbatim>\<open>JSON.parse\<close> (\<open>None\<close> where it throws a SyntaxError)
  and the text it makes of a value that has one (\<open>ToString\<close>, read only through
  \<open>toText\<close> below), and the outcome of each \<^verbatim>\<open>fetch\<close>, numbered in the order of the calls
  of one request. The prompts and URLs
  go into the outgoing requests only, and the answer to the \<open>n\<close>-th call is any value at
  all, so they are not represented.
\<close>

record http =
  code :: nat
  payload :: "json option"

datatype fetched = Rejected | Resolved http

record world =
  LOVABLE_API_KEY :: "string option"
  SERPAPI_KEY :: "string option"
  JSON_parse :: "string \<Rightarrow> json option"
  ToString :: "jsval \<Rightarrow> string"
  fetch :: "nat \<Rightarrow> fetched"

text \<open>
  The conversion of a value to a string in a template literal \<^verbatim>\<open>`${v}`\<close>. An object is
  converted by its \<^verbatim>\<open>toString\<close>: an object of \<^verbatim>\<open>JSON.parse\<close> with a key \<^verbatim>\<open>toString\<close> of its
  own has a value there that is no function, the inherited \<^verbatim>\<open>valueOf\<close> gives the object
  back, and the conversion throws a TypeError; any other object inherits
  \<^verbatim>\<open>Object.prototype.toString\<close>. An array joins the texts of its elements (\<^verbatim>\<open>null\<close> gives the
  empty text), and throws where one of them does.
\<close>

fun convertible :: "json \<Rightarrow> bool" where
  "convertible (JObj kvs) = (map_of kvs ''toString'' = None)"
| "convertible (JArr xs) = list_all convertible xs"
| "convertible v = True"

definition textual :: "jsval \<Rightarrow> bool" where
  "textual v = (case v of Val j \<Rightarrow> convertible j | other \<Rightarrow> True)"

definition toText :: "world \<Rightarrow> jsval \<Rightarrow> exn + string" where
  "toText w v = (if textual v then Inr (ToString w v) else Inl TypeError)"

text \<open>A secret is used when it is set and not empty (\<^verbatim>\<open>if (KEY)\<close>, \<^verbatim>\<open>if (!KEY)\<close>).\<close>

definition configured :: "string option \<Rightarrow> bool" where
  "configured k = (case k of None \<Rightarrow> False | Some s \<Rightarrow> s \<noteq> [])"

text \<open>\<^verbatim>\<open>res.ok\<close>\<close>

definition ok :: "http \<Rightarrow> bool" where
  "ok res = (200 \<le> code res \<and> code res \<le> 299)"

text \<open>
  A computation that awaits: it starts when \<open>n\<close> calls of \<^verbatim>\<open>fetch\<close> have been made, and
  yields a value or an exception, and the number of calls made by then.
\<close>

type_synonym 'a io = "nat \<Rightarrow> (exn + 'a) \<times> nat"

definition unit_io :: "'a \<Rightarrow> 'a io" where
  "unit_io x n = (Inr x, n)"

definition throw :: "exn \<Rightarrow> 'a io" where
  "throw e n = (Inl e, n)"

definition lift :: "exn + 'a \<Rightarrow> 'a io" where
  "lift m n = (m, n)"

definition bind :: "'a io \<Rightarrow> ('a \<Rightarrow> 'b io) \<Rightarrow> 'b io" where
  "bind m f n = (case m n of (Inl e, n') \<Rightarrow> (Inl e, n') | (Inr x, n') \<Rightarrow> f x n')"

text \<open>\<^verbatim>\<open>try { m } catch { h }\<close>\<close>

definition try_catch :: "'a io \<Rightarrow> (exn \<Rightarrow> 'a io) \<Rightarrow> 'a io" where
  "try_catch m h n = (case m n of (Inl e, n') \<Rightarrow> h e n' | (Inr x, n') \<Rightarrow> (Inr x, n'))"

text \<open>
  \<^verbatim>\<open>try { ... } catch (error) { return h(error) }\<close> around the whole body of a handler:
  what is thrown inside becomes the handler's result.
\<close>

definition catch_all :: "'a io \<Rightarrow> (exn \<Rightarrow> 'a) \<Rightarrow> nat \<Rightarrow> 'a \<times> nat" where
  "catch_all m h n = (case m n of (Inl e, n') \<Rightarrow> (h e, n') | (Inr x, n') \<Rightarrow> (x, n'))"

text \<open>\<^verbatim>\<open>await fetch(...)\<close> and \<^verbatim>\<open>await res.json()\<close>\<close>

definition await_fetch :: "world \<Rightarrow> http io" where
  "await_fetch w n =
     (case fetch w n of Rejected \<Rightarrow> (Inl FetchRejected, Suc n) | Resolved res \<Rightarrow> (Inr res, Suc n))"

definition res_json :: "http \<Rightarrow> exn + json" where
  "res_json res = (case payload res of None \<Rightarrow> Inl SyntaxError | Some data \<Rightarrow> Inr data)"

text \<open>\<^verbatim>\<open>xs.map(f)\<close> with a callback that can throw.\<close>

fun mapE :: "('a \<Rightarrow> exn + 'b) \<Rightarrow> 'a list \<Rightarrow> exn + 'b list" where
  "mapE f [] = Inr []"
| "mapE f (x # xs) = bindE (f x) (\<lambda>y. bindE (mapE f xs) (\<lambda>ys. Inr (y # ys)))"

section \<open>Requests and responses\<close>

text \<open>
  A request is read through \<^verbatim>\<open>req.method\<close> and \<^verbatim>\<open>await req.json()\<close> (\<open>None\<close> where the
  body is not JSON and the call throws).
\<close>

record request =
  req_method :: string
  json_body :: "json option"

text \<open>
  The message of an exception (\<^verbatim>\<open>error.message\<close>): the text given to \<^verbatim>\<open>new Error\<close>, or the
  engine's text for an exception of its own.
\<close>

datatype errtext = Text string | EngineText exn

fun message :: "exn \<Rightarrow> errtext" where
  "message (Error m) = Text m"
| "message e = EngineText e"

text \<open>
  The body handed to \<^verbatim>\<open>new Response\<close> is \<^verbatim>\<open>JSON.stringify\<close> of an object: \<^verbatim>\<open>{ error: m }\<close>, or
  the result. The model keeps the object. \<open>None\<close> is the \<^verbatim>\<open>null\<close> body.
\<close>

datatype 'r body = ErrorBody errtext | ResultBody 'r

record 'r response =
  status :: nat
  headers :: "(string \<times> string) list"
  body :: "'r body option"

text \<open>
  \<^verbatim>\<open>new Response(body, { status, headers })\<close>; where the source gives no status the
  constructor takes 200.
\<close>

definition new_Response :: "'r body option \<Rightarrow> nat option \<Rightarrow> (string \<times> string) list \<Rightarrow> 'r response" where
  "new_Response b st hs =
     \<lparr>status = (case st of None \<Rightarrow> 200 | Some c \<Rightarrow> c), headers = hs, body = b\<rparr>"

definition corsHeaders :: "(string \<times> string) list" where
  "corsHeaders =
     [(''Access-Control-Allow-Origin'', ''*''),
      (''Access-Control-Allow-Headers'', ''authorization, x-client-info, apikey, content-type'')]"

text \<open>\<^verbatim>\<open>{ ...corsHeaders, "Content-Type": "application/json" }\<close>\<close>

definition jsonHeaders :: "(string \<times> string) list" where
  "jsonHeaders = corsHeaders @ [(''Content-Type'', ''application/json'')]"

text \<open>The records of the sources lists, and the results.\<close>

record titled =
  title :: jsval

record title_link = titled +
  link :: jsval

record title_url = titled +
  url :: jsval

record Source = title_url +
  snippet :: jsval

record 's sourced = verdict_fields +
  sources :: "'s list"

record 's moded = "'s sourced" +
  sourceMode :: string


definition errorResponse :: "nat \<Rightarrow> errtext \<Rightarrow> 'r response" where
  "errorResponse st m = new_Response (Some (ErrorBody m)) (Some st) jsonHeaders"

text \<open>
  The check of the request body, the same in the three handlers:
  \<^verbatim>\<open>!text || typeof text !== "string" || text.trim().length === 0\<close>
\<close>

fun the_string :: "jsval \<Rightarrow> string" where
  "the_string (Val (JStr s)) = s"
| "the_string v = []"

definition rejected :: "jsval \<Rightarrow> bool" where
  "rejected text = (\<not> truthy text \<or> \<not> is_string text \<or> length (trim (the_string text)) = 0)"

section \<open>The plain pipeline (\<^verbatim>\<open>TechnologyImpact.tsx\<close>, lines 39-336)\<close>

text \<open>What \<^verbatim>\<open>callGemini\<close> returns: \<^verbatim>\<open>{ error }\<close> or \<^verbatim>\<open>{ content }\<close>.\<close>

datatype gemini = GError string | GContent jsval

definition callGemini :: "world \<Rightarrow> gemini io" where
  "callGemini w =
     bind (await_fetch w) (\<lambda>res.
       if \<not> ok res then
         unit_io (GError
           (if code res = 429 then ''Rate limit exceeded. Please try again later.''
            else if code res = 402 then ''AI service quota exceeded. Please try again later.''
            else ''Failed to analyze content''))
       else
         bind (lift (res_json res)) (\<lambda>data.
         bind (lift (getProp (Val data) ''choices'')) (\<lambda>choices.
           let content = optProp (optProp (optIndex0 choices) ''message'') ''content'' in
           if \<not> truthy content then unit_io (GError ''Invalid AI response'')
           else unit_io (GContent content))))"

text \<open>What \<^verbatim>\<open>runLiveSearch\<close> returns: \<^verbatim>\<open>{ snippets, sources, error }\<close>.\<close>

record 's search =
  search_snippets :: string
  search_sources :: "'s list"
  search_error :: "string option"

text \<open>
  \<^verbatim>\<open>(v).slice(0, 5)\<close> as far as the \<^verbatim>\<open>map\<close> that follows it: an array gives its first five
  elements; a string gives a string, which has no \<^verbatim>\<open>map\<close>, and any other value has no
  \<^verbatim>\<open>slice\<close>, a TypeError either way.
\<close>

fun slice5 :: "jsval \<Rightarrow> exn + json list" where
  "slice5 (Val (JArr xs)) = Inr (take 5 xs)"
| "slice5 v = Inl TypeError"

definition newline :: string where
  "newline = [CHR 0x0A]"

definition num :: "nat \<Rightarrow> jsval" where
  "num i = Val (JNum (Fin (of_nat i)))"

definition str :: "string \<Rightarrow> jsval" where
  "str s = Val (JStr s)"

text \<open>
  The callback of the first \<^verbatim>\<open>map\<close>:
  \<^verbatim>\<open>`${i + 1}. ${r.title || "Untitled"}\n${r.snippet || ""}\n${r.link || ""}`\<close>
\<close>

definition snippetOf :: "world \<Rightarrow> nat \<times> json \<Rightarrow> exn + string" where
  "snippetOf w ir =
     (case ir of (i, r) \<Rightarrow>
        bindE (getProp (Val r) ''title'') (\<lambda>t.
        bindE (getProp (Val r) ''link'') (\<lambda>l.
        bindE (getProp (Val r) ''snippet'') (\<lambda>sn.
        bindE (toText w (num (i + 1))) (\<lambda>number.
        bindE (toText w (or_else t (str ''Untitled''))) (\<lambda>titleText.
        bindE (toText w (or_else sn (str []))) (\<lambda>snippetText.
        bindE (toText w (or_else l (str []))) (\<lambda>linkText.
          Inr (number @ ''. '' @ titleText @ newline @ snippetText @ newline
               @ linkText)))))))))"

definition sourceOf :: "json \<Rightarrow> exn + title_link" where
  "sourceOf r =
     bindE (getProp (Val r) ''title'') (\<lambda>t.
     bindE (getProp (Val r) ''link'') (\<lambda>l.
       Inr \<lparr>title = or_else t (str []), link = or_else l (str [])\<rparr>))"

definition noSearch :: "string \<Rightarrow> 's search" where
  "noSearch m = \<lparr>search_snippets = [], search_sources = [], search_error = Some m\<rparr>"

definition runLiveSearch :: "world \<Rightarrow> title_link search io" where
  "runLiveSearch w =
     (if \<not> configured (SERPAPI_KEY w) then
        unit_io (noSearch ''Live search is not configured (missing SERPAPI_KEY).'')
      else
        bind (await_fetch w) (\<lambda>res.
          if \<not> ok res then unit_io (noSearch ''Live search failed.'')
          else
            bind (lift (res_json res)) (\<lambda>data.
            bind (lift (getProp (Val data) ''organic_results'')) (\<lambda>results.
            bind (lift (slice5 (or_else results (Val (JArr []))))) (\<lambda>top.
            bind (lift (mapE (snippetOf w) (enumerate 0 top))) (\<lambda>lines.
            bind (lift (mapE sourceOf top)) (\<lambda>srcs.
              unit_io \<lparr>search_snippets = join (newline @ newline) lines,
                       search_sources = srcs, search_error = None\<rparr>)))))))"

text \<open>Step 1: \<^verbatim>\<open>decisionRes.content.trim().includes("LIVE_SEARCH_REQUIRED")\<close>\<close>

fun needsLiveSearch :: "jsval \<Rightarrow> exn + bool" where
  "needsLiveSearch (Val (JStr s)) = Inr (includesStr (trim s) ''LIVE_SEARCH_REQUIRED'')"
| "needsLiveSearch v = Inl TypeError"

text \<open>
  Step 2: the web snippets, the sources and the source mode. \<^verbatim>\<open>if (search.error)\<close> holds
  when the error is a text that is not empty; \<^verbatim>\<open>null\<close> is \<open>None\<close>.
\<close>

definition liveEvidence :: "world \<Rightarrow> bool \<Rightarrow> (string \<times> title_link list \<times> string) io" where
  "liveEvidence w needs =
     (if needs then
        bind (runLiveSearch w) (\<lambda>search.
          if configured (search_error search) then unit_io ([], [], ''static'')
          else unit_io (search_snippets search, search_sources search, ''live-web''))
      else unit_io ([], [], ''static''))"

text \<open>
  The parse of the model's answer (lines 281-294): \<^verbatim>\<open>match\<close> is a method of strings only, so
  an answer that is not a string throws inside the \<^verbatim>\<open>try\<close> as text that is not JSON does.
\<close>

fun extractJson :: "world \<Rightarrow> jsval \<Rightarrow> exn + json" where
  "extractJson w (Val (JStr content)) =
     (case JSON_parse w (trim (case fenced content of None \<Rightarrow> content | Some g \<Rightarrow> g)) of
        None \<Rightarrow> Inl SyntaxError
      | Some a \<Rightarrow> Inr a)"
| "extractJson w v = Inl TypeError"

definition candidate :: "string \<Rightarrow> json" where
  "candidate x =
     JObj [(''verdict'', JStr ''uncertain''), (''confidence'', JNum (Fin 50)),
           (''explanation'', JStr x), (''redFlags'', JArr [])]"

definition parseAnalysis :: "world \<Rightarrow> jsval \<Rightarrow> json" where
  "parseAnalysis w content =
     (case extractJson w content of
        Inl err \<Rightarrow> candidate ''Unable to fully analyze this content. Please try again.''
      | Inr a \<Rightarrow> a)"

definition withSources :: "verdict_fields \<Rightarrow> string \<Rightarrow> 's list \<Rightarrow> 's moded" where
  "withSources r m ss =
     \<lparr>verdict = verdict r, confidence = confidence r, explanation = explanation r,
      redFlags = redFlags r, sources = ss, sourceMode = m\<rparr>"

definition okResponse :: "'r \<Rightarrow> 'r response" where
  "okResponse r = new_Response (Some (ResultBody r)) None jsonHeaders"

definition pipeline_plain :: "world \<Rightarrow> title_link moded response io" where
  "pipeline_plain w =
     bind (callGemini w) (\<lambda>decisionRes.
       case decisionRes of
         GError m \<Rightarrow> unit_io (errorResponse 500 (Text m))
       | GContent decisionRaw \<Rightarrow>
           bind (lift (needsLiveSearch decisionRaw)) (\<lambda>needs.
           bind (liveEvidence w needs) (\<lambda>(webSnippets, srcs, mode).
           bind (callGemini w) (\<lambda>analysisRes.
             case analysisRes of
               GError m \<Rightarrow> unit_io (errorResponse 500 (Text m))
             | GContent content \<Rightarrow>
                 bind (lift (sanitize (parseAnalysis w content))) (\<lambda>r.
                   unit_io (okResponse (withSources r mode srcs)))))))"

text \<open>
  The handler given to \<^verbatim>\<open>serve\<close>: the answer to a preflight, then the \<^verbatim>\<open>try\<close> block and its
  \<^verbatim>\<open>catch\<close>. The result is the response and the number of calls of \<^verbatim>\<open>fetch\<close> made for it.
\<close>

definition tryBody_plain :: "world \<Rightarrow> request \<Rightarrow> title_link moded response io" where
  "tryBody_plain w req =
     bind (lift (case json_body req of None \<Rightarrow> Inl SyntaxError | Some b \<Rightarrow> Inr b)) (\<lambda>b.
     bind (lift (getProp (Val b) ''text'')) (\<lambda>text.
       if rejected text then
         unit_io (errorResponse 400 (Text ''Please provide text to analyze''))
       else if \<not> configured (LOVABLE_API_KEY w) then throw (Error ''AI service is not configured'')
       else pipeline_plain w))"

definition handler_plain :: "world \<Rightarrow> request \<Rightarrow> title_link moded response \<times> nat" where
  "handler_plain w req =
     (if req_method req = ''OPTIONS'' then (new_Response None None corsHeaders, 0)
      else catch_all (tryBody_plain w req) (\<lambda>error. errorResponse 500 (message error)) 0)"


section \<open>The grounded pipeline (\<^verbatim>\<open>part_002\<close>)\<close>

text \<open>
  \<^verbatim>\<open>for (const x of v)\<close>: the elements of an array, the characters of a string; any other
  value is not iterable.
\<close>

fun iterate :: "jsval \<Rightarrow> exn + json list" where
  "iterate (Val (JArr xs)) = Inr xs"
| "iterate (Val (JStr s)) = Inr (map (\<lambda>c. JStr [c]) s)"
| "iterate v = Inl TypeError"

text \<open>
  The grounding metadata, looked for in four places:
  \<^verbatim>\<open>choice?.message?.grounding_metadata ?? choice?.message?.groundingMetadata
   ?? data?.grounding_metadata ?? data?.groundingMetadata\<close>
\<close>

definition groundingMeta :: "json \<Rightarrow> jsval \<Rightarrow> jsval" where
  "groundingMeta data choice =
     coalesce (coalesce (coalesce
       (optProp (optProp choice ''message'') ''grounding_metadata'')
       (optProp (optProp choice ''message'') ''groundingMetadata''))
       (optProp (Val data) ''grounding_metadata''))
       (optProp (Val data) ''groundingMetadata'')"

text \<open>
  The body of the loop over the chunks (lines 71-79): \<open>None\<close> where the chunk has no
  \<^verbatim>\<open>uri\<close> and no \<^verbatim>\<open>url\<close> and nothing is pushed.
\<close>

definition groundedSource :: "json \<Rightarrow> exn + title_url option" where
  "groundedSource chunk =
     bindE (getProp (Val chunk) ''web'') (\<lambda>cw.
       let web = coalesce cw (Val chunk) in
       if truthy (or_else (optProp web ''uri'') (optProp web ''url'')) then
         bindE (getProp web ''title'') (\<lambda>t.
         bindE (getProp web ''uri'') (\<lambda>uri.
         bindE (getProp web ''url'') (\<lambda>u.
           Inr (Some \<lparr>title = coalesce t (str ''Source''), url = coalesce uri u\<rparr>))))
       else Inr None)"

fun groundedSources :: "json list \<Rightarrow> title_url list \<Rightarrow> exn + title_url list" where
  "groundedSources [] acc = Inr acc"
| "groundedSources (chunk # chunks) acc =
     bindE (groundedSource chunk) (\<lambda>pushed.
       groundedSources chunks (case pushed of None \<Rightarrow> acc | Some g \<Rightarrow> acc @ [g]))"

text \<open>What this \<^verbatim>\<open>callGemini\<close> returns: \<^verbatim>\<open>{ error }\<close> or \<^verbatim>\<open>{ content, groundedSources }\<close>.\<close>

datatype grounded = GroundedError string | Grounded jsval "title_url list"

definition callGemini_grounded :: "world \<Rightarrow> grounded io" where
  "callGemini_grounded w =
     bind (await_fetch w) (\<lambda>res.
       if \<not> ok res then
         unit_io (GroundedError
           (if code res = 429 then ''Rate limit exceeded. Please try again later.''
            else if code res = 402 then ''AI service quota exceeded. Please try again later.''
            else ''Failed to analyze content''))
       else
         bind (lift (res_json res)) (\<lambda>data.
         bind (lift (getProp (Val data) ''choices'')) (\<lambda>choices.
           let choice = optIndex0 choices;
               content = optProp (optProp choice ''message'') ''content''
           in
           if \<not> truthy content then unit_io (GroundedError ''Invalid AI response'')
           else
             let meta = groundingMeta data choice in
             if truthy (or_else (optProp meta ''grounding_chunks'') (optProp meta ''groundingChunks''))
             then
               bind (lift (getProp meta ''grounding_chunks'')) (\<lambda>a.
               bind (lift (getProp meta ''groundingChunks'')) (\<lambda>b.
               bind (lift (iterate (coalesce (coalesce a b) (Val (JArr []))))) (\<lambda>chunks.
               bind (lift (groundedSources chunks [])) (\<lambda>found.
                 unit_io (Grounded content found)))))
             else unit_io (Grounded content []))))"

definition runLiveSearch_grounded :: "world \<Rightarrow> title_link search io" where
  "runLiveSearch_grounded w =
     (if \<not> configured (SERPAPI_KEY w) then unit_io (noSearch ''no-key'')
      else
        bind (await_fetch w) (\<lambda>res.
          if \<not> ok res then unit_io (noSearch ''Live search failed.'')
          else
            bind (lift (res_json res)) (\<lambda>data.
            bind (lift (getProp (Val data) ''organic_results'')) (\<lambda>results.
            bind (lift (slice5 (or_else results (Val (JArr []))))) (\<lambda>top.
            bind (lift (mapE (snippetOf w) (enumerate 0 top))) (\<lambda>lines.
            bind (lift (mapE sourceOf top)) (\<lambda>srcs.
              unit_io \<lparr>search_snippets = join (newline @ newline) lines,
                       search_sources = srcs, search_error = None\<rparr>)))))))"

text \<open>
  \<^verbatim>\<open>decisionRes.content!.includes("LIVE_SEARCH_REQUIRED")\<close>, with no \<^verbatim>\<open>trim\<close> here. Arrays
  have an \<^verbatim>\<open>includes\<close> too, which looks for an element equal to the argument.
\<close>

fun needsLiveSearch_grounded :: "jsval \<Rightarrow> exn + bool" where
  "needsLiveSearch_grounded (Val (JStr s)) = Inr (includesStr s ''LIVE_SEARCH_REQUIRED'')"
| "needsLiveSearch_grounded (Val (JArr xs)) = Inr (List.member xs (JStr ''LIVE_SEARCH_REQUIRED''))"
| "needsLiveSearch_grounded v = Inl TypeError"

definition parseAnalysis_fallback :: "world \<Rightarrow> jsval \<Rightarrow> json" where
  "parseAnalysis_fallback w content =
     (case extractJson w content of Inl err \<Rightarrow> candidate ''Parse error.'' | Inr a \<Rightarrow> a)"

text \<open>\<^verbatim>\<open>sources.map(s => ({ title: s.title, url: s.link }))\<close>\<close>

definition asUrl :: "title_link \<Rightarrow> title_url" where
  "asUrl s = \<lparr>title = title s, url = link s\<rparr>"

text \<open>
  \<^verbatim>\<open>fallbackAnalysis\<close>, entered when the grounded call reports an error: a search if the
  claim needs it (the web snippets, the sources and the source mode), then one more call
  of the model.
\<close>

definition liveEvidence_grounded :: "world \<Rightarrow> bool \<Rightarrow> (string \<times> title_link list \<times> string) io" where
  "liveEvidence_grounded w needs =
     (if needs then
        bind (runLiveSearch_grounded w) (\<lambda>search.
          if \<not> configured (search_error search)
          then unit_io (search_snippets search, search_sources search, ''live-web'')
          else unit_io ([], [], ''static''))
      else unit_io ([], [], ''static''))"

definition fallbackAnalysis :: "world \<Rightarrow> bool \<Rightarrow> title_url moded response io" where
  "fallbackAnalysis w needs =
     bind (liveEvidence_grounded w needs) (\<lambda>(webSnippets, srcs, mode).
     bind (callGemini_grounded w) (\<lambda>res.
       case res of
         GroundedError m \<Rightarrow> unit_io (errorResponse 500 (Text m))
       | Grounded content found \<Rightarrow>
           bind (lift (sanitize (parseAnalysis_fallback w content))) (\<lambda>r.
             unit_io (okResponse (withSources r mode (map asUrl srcs))))))"

text \<open>The handler given to \<^verbatim>\<open>serve\<close>, as in the plain pipeline.\<close>

definition pipeline_grounded :: "world \<Rightarrow> title_url moded response io" where
  "pipeline_grounded w =
     bind (callGemini_grounded w) (\<lambda>decisionRes.
       case decisionRes of
         GroundedError m \<Rightarrow> unit_io (errorResponse 500 (Text m))
       | Grounded decision ignored \<Rightarrow>
           bind (lift (needsLiveSearch_grounded decision)) (\<lambda>needs.
           bind (callGemini_grounded w) (\<lambda>analysisRes.
             case analysisRes of
               GroundedError m \<Rightarrow> fallbackAnalysis w needs
             | Grounded content found \<Rightarrow>
                 bind (lift (sanitize (parseAnalysis w content))) (\<lambda>r.
                   unit_io (okResponse
                     (withSources r (if length found > 0 then ''grounded'' else ''static'')
                        (if length found > 0 then found else [])))))))"

definition tryBody_grounded :: "world \<Rightarrow> request \<Rightarrow> title_url moded response io" where
  "tryBody_grounded w req =
     bind (lift (case json_body req of None \<Rightarrow> Inl SyntaxError | Some b \<Rightarrow> Inr b)) (\<lambda>b.
     bind (lift (getProp (Val b) ''text'')) (\<lambda>text.
       if rejected text then
         unit_io (errorResponse 400 (Text ''Please provide text to analyze''))
       else if \<not> configured (LOVABLE_API_KEY w) then throw (Error ''AI service is not configured'')
       else pipeline_grounded w))"

definition handler_grounded :: "world \<Rightarrow> request \<Rightarrow> title_url moded response \<times> nat" where
  "handler_grounded w req =
     (if req_method req = ''OPTIONS'' then (new_Response None None corsHeaders, 0)
      else catch_all (tryBody_grounded w req) (\<lambda>error. errorResponse 500 (message error)) 0)"


section \<open>The tool-calling pipeline (\<^verbatim>\<open>TechnologyImpact.tsx\<close>, lines 337-657)\<close>

definition corsHeaders_search :: "(string \<times> string) list" where
  "corsHeaders_search =
     [(''Access-Control-Allow-Origin'', ''*''),
      (''Access-Control-Allow-Headers'',
       ''authorization, x-client-info, apikey, content-type, x-supabase-client-platform, x-supabase-client-platform-version, x-supabase-client-runtime, x-supabase-client-runtime-version'')]"

definition jsonHeaders_search :: "(string \<times> string) list" where
  "jsonHeaders_search = corsHeaders_search @ [(''Content-Type'', ''application/json'')]"

subsection \<open>performWebSearch\<close>

text \<open>The record built from one organic result of SerpAPI (lines 500-504).\<close>

definition serpSource :: "json \<Rightarrow> exn + Source" where
  "serpSource r =
     bindE (getProp (Val r) ''title'') (\<lambda>t.
     bindE (getProp (Val r) ''link'') (\<lambda>l.
     bindE (getProp (Val r) ''snippet'') (\<lambda>sn.
       Inr \<lparr>title = or_else t (str ''Untitled''), url = or_else l (str []),
            snippet = or_else sn (str [])\<rparr>)))"

text \<open>
  The first \<^verbatim>\<open>try\<close> (lines 494-509). \<open>Some rs\<close>: the function returns \<open>rs\<close>. \<open>None\<close>:
  control goes on to the fallback, after a response that is not OK or after the \<^verbatim>\<open>catch\<close>.
  The URL is built from the text of the query (\<^verbatim>\<open>encodeURIComponent(query)\<close>) before the
  call of \<^verbatim>\<open>fetch\<close>; a text of code units below 256 holds no lone surrogate, on which
  \<^verbatim>\<open>encodeURIComponent\<close> would throw.
\<close>

definition trySerp :: "world \<Rightarrow> jsval \<Rightarrow> Source list option io" where
  "trySerp w query =
     try_catch
       (bind (lift (toText w query)) (\<lambda>queryText.
        bind (await_fetch w) (\<lambda>res.
          if ok res then
            bind (lift (res_json res)) (\<lambda>data.
            bind (lift (getProp (Val data) ''organic_results'')) (\<lambda>organic.
            bind (lift (slice5 (or_else organic (Val (JArr []))))) (\<lambda>results.
            bind (lift (mapE serpSource results)) (\<lambda>rs.
              unit_io (Some rs)))))
          else unit_io None)))
       (\<lambda>e. unit_io None)"

text \<open>The body of the loop over the grounding chunks (lines 551-560).\<close>

definition chunkSource :: "json \<Rightarrow> exn + Source option" where
  "chunkSource chunk =
     bindE (getProp (Val chunk) ''web'') (\<lambda>cw.
       let web = coalesce cw (Val chunk) in
       if truthy (or_else (optProp web ''uri'') (optProp web ''url'')) then
         bindE (getProp web ''title'') (\<lambda>t.
         bindE (getProp web ''uri'') (\<lambda>uri.
         bindE (getProp web ''url'') (\<lambda>u.
         bindE (getProp web ''snippet'') (\<lambda>sn.
           Inr (Some \<lparr>title = coalesce t (str ''Source''), url = coalesce uri u,
                      snippet = coalesce sn (str [])\<rparr>)))))
       else Inr None)"

fun chunkSources :: "json list \<Rightarrow> Source list \<Rightarrow> exn + Source list" where
  "chunkSources [] acc = Inr acc"
| "chunkSources (chunk # chunks) acc =
     bindE (chunkSource chunk) (\<lambda>pushed.
       chunkSources chunks (case pushed of None \<Rightarrow> acc | Some g \<Rightarrow> acc @ [g]))"

text \<open>
  The match of \<^verbatim>\<open>/\[[\s\S]*\]/\<close>: from the first opening bracket to the last closing
  bracket behind it.
\<close>

definition bracketed :: "string \<Rightarrow> string option" where
  "bracketed content =
     (case cut ''['' content of
        None \<Rightarrow> None
      | Some (pre, rest) \<Rightarrow>
          (case cut '']'' (rev rest) of
             None \<Rightarrow> None
           | Some (behind, inner) \<Rightarrow> Some (''['' @ rev inner @ '']'')))"

text \<open>The record built from one element of the array the model wrote (lines 570-574).\<close>

definition listedSource :: "json \<Rightarrow> exn + Source" where
  "listedSource r =
     bindE (getProp (Val r) ''title'') (\<lambda>t.
     bindE (getProp (Val r) ''url'') (\<lambda>u.
     bindE (getProp (Val r) ''link'') (\<lambda>l.
     bindE (getProp (Val r) ''snippet'') (\<lambda>sn.
     bindE (getProp (Val r) ''description'') (\<lambda>d.
       Inr \<lparr>title = or_else t (str ''Source''), url = or_else (or_else u l) (str []),
            snippet = or_else (or_else sn d) (str [])\<rparr>)))))"

text \<open>
  The inner \<^verbatim>\<open>try\<close> (lines 565-576), before its \<^verbatim>\<open>catch\<close>. \<open>Some rs\<close>: the function returns
  \<open>rs\<close>. \<open>None\<close>: no match, or what was parsed is not an array.
\<close>

fun tryListed :: "world \<Rightarrow> jsval \<Rightarrow> exn + Source list option" where
  "tryListed w (Val (JStr content)) =
     (case bracketed content of
        None \<Rightarrow> Inr None
      | Some m \<Rightarrow>
          (case JSON_parse w m of
             None \<Rightarrow> Inl SyntaxError
           | Some (JArr parsed) \<Rightarrow> bindE (mapE listedSource (take 5 parsed)) (\<lambda>rs. Inr (Some rs))
           | Some other \<Rightarrow> Inr None))"
| "tryListed w v = Inl TypeError"

text \<open>
  The fallback (lines 516-583), with its two \<^verbatim>\<open>catch\<close> clauses. The body of the request
  holds \<^verbatim>\<open>`Search for: "${query}" ...`\<close>, built before the call of \<^verbatim>\<open>fetch\<close>.
\<close>

definition geminiSearch :: "world \<Rightarrow> jsval \<Rightarrow> Source list io" where
  "geminiSearch w query =
     try_catch
       (bind (lift (toText w query)) (\<lambda>queryText.
        bind (await_fetch w) (\<lambda>res.
          if \<not> ok res then unit_io []
          else
            bind (lift (res_json res)) (\<lambda>data.
            bind (lift (getProp (Val data) ''choices'')) (\<lambda>choices.
              let content =
                    or_else (optProp (optProp (optIndex0 choices) ''message'') ''content'') (str []);
                  choice = optIndex0 choices;
                  meta = groundingMeta data choice
              in
              bind (if truthy (or_else (optProp meta ''grounding_chunks'')
                                       (optProp meta ''groundingChunks''))
                    then
                      bind (lift (getProp meta ''grounding_chunks'')) (\<lambda>a.
                      bind (lift (getProp meta ''groundingChunks'')) (\<lambda>b.
                      bind (lift (iterate (coalesce (coalesce a b) (Val (JArr []))))) (\<lambda>chunks.
                      bind (lift (chunkSources chunks [])) (\<lambda>found.
                        unit_io (if length found > 0 then Some (take 5 found) else None)))))
                    else unit_io None) (\<lambda>returned.
                case returned of
                  Some rs \<Rightarrow> unit_io rs
                | None \<Rightarrow>
                    (case tryListed w content of
                       Inr (Some rs) \<Rightarrow> unit_io rs
                     | Inr None \<Rightarrow> unit_io []
                     | Inl ignored \<Rightarrow> unit_io [])))))))
       (\<lambda>e. unit_io [])"

definition performWebSearch :: "world \<Rightarrow> jsval \<Rightarrow> Source list io" where
  "performWebSearch w query =
     bind (if configured (SERPAPI_KEY w) then trySerp w query else unit_io None) (\<lambda>returned.
       case returned of
         Some rs \<Rightarrow> unit_io rs
       | None \<Rightarrow> if \<not> configured (LOVABLE_API_KEY w) then unit_io [] else geminiSearch w query)"

subsection \<open>callGeminiWithSearch\<close>

text \<open>
  The body of the \<^verbatim>\<open>try\<close> in the loop over the tool calls (lines 412-415): the value of
  \<^verbatim>\<open>args.query\<close>.
\<close>

definition queryOf :: "world \<Rightarrow> json \<Rightarrow> exn + jsval" where
  "queryOf w tc =
     bindE (getProp (Val tc) ''function'') (\<lambda>f.
     bindE (getProp f ''arguments'') (\<lambda>arguments.
     bindE (case arguments of
              Val (JStr text) \<Rightarrow>
                (case JSON_parse w text of None \<Rightarrow> Inl SyntaxError | Some a \<Rightarrow> Inr (Val a))
            | other \<Rightarrow> Inr other) (\<lambda>args.
       getProp args ''query'')))"

fun searchQueries :: "world \<Rightarrow> json list \<Rightarrow> jsval list \<Rightarrow> jsval list" where
  "searchQueries w [] acc = acc"
| "searchQueries w (tc # toolCalls) acc =
     searchQueries w toolCalls
       (case queryOf w tc of
          Inl skipped \<Rightarrow> acc
        | Inr q \<Rightarrow> if truthy q then acc @ [q] else acc)"

text \<open>
  \<^verbatim>\<open>s.url === r.url\<close>. Two objects or arrays are equal only when they are the same one, and
  the values compared here sit in different elements of what \<^verbatim>\<open>JSON.parse\<close> built.
\<close>

fun strictEq :: "jsval \<Rightarrow> jsval \<Rightarrow> bool" where
  "strictEq Undefined Undefined = True"
| "strictEq StringLink StringLink = True"
| "strictEq (Val JNull) (Val JNull) = True"
| "strictEq (Val (JBool a)) (Val (JBool b)) = (a = b)"
| "strictEq (Val (JNum a)) (Val (JNum b)) = (a = b)"
| "strictEq (Val (JStr a)) (Val (JStr b)) = (a = b)"
| "strictEq a b = False"

text \<open>
  \<^verbatim>\<open>`- ${r.title}: ${r.snippet} (${r.url})`\<close>, which throws where one of the three
  conversions does.
\<close>

definition evidenceLine :: "world \<Rightarrow> Source \<Rightarrow> exn + string" where
  "evidenceLine w r =
     bindE (toText w (title r)) (\<lambda>titleText.
     bindE (toText w (snippet r)) (\<lambda>snippetText.
     bindE (toText w (url r)) (\<lambda>urlText.
       Inr (''- '' @ titleText @ '': '' @ snippetText @ '' ('' @ urlText @ '')''))))"

text \<open>
  The inner loop (lines 432-437), on the pair of \<^verbatim>\<open>allSources\<close> and \<^verbatim>\<open>allSnippets\<close>. It stands
  in no \<^verbatim>\<open>try\<close>: a line that throws ends the loop and the function around it.
\<close>

fun mergeResults ::
  "world \<Rightarrow> Source list \<Rightarrow> Source list \<times> string list \<Rightarrow> exn + Source list \<times> string list" where
  "mergeResults w [] acc = Inr acc"
| "mergeResults w (r # results) (allSources, allSnippets) =
     (if \<not> list_ex (\<lambda>s. strictEq (url s) (url r)) allSources
      then bindE (evidenceLine w r) (\<lambda>line.
             mergeResults w results (allSources @ [r], allSnippets @ [line]))
      else mergeResults w results (allSources, allSnippets))"

text \<open>The outer loop (lines 430-438), over \<^verbatim>\<open>searchQueries.slice(0, 3)\<close>.\<close>

fun searchAll :: "world \<Rightarrow> jsval list \<Rightarrow> Source list \<times> string list \<Rightarrow> (Source list \<times> string list) io" where
  "searchAll w [] acc = unit_io acc"
| "searchAll w (query # queries) acc =
     bind (performWebSearch w query) (\<lambda>results.
     bind (lift (mergeResults w results acc)) (\<lambda>merged.
       searchAll w queries merged))"

text \<open>What \<^verbatim>\<open>callGeminiWithSearch\<close> returns: \<^verbatim>\<open>{ error }\<close> or \<^verbatim>\<open>{ content, sources }\<close>.\<close>

datatype searched = SearchedError string | Searched jsval "Source list"

text \<open>
  Lines 427-441: the loop over the first three queries, then \<^verbatim>\<open>topSources\<close> and
  \<^verbatim>\<open>evidenceText\<close>.
\<close>

definition gatherEvidence :: "world \<Rightarrow> jsval list \<Rightarrow> (Source list \<times> string) io" where
  "gatherEvidence w queries =
     bind (searchAll w (take 3 queries) ([], [])) (\<lambda>(allSources, allSnippets).
       unit_io (take 8 allSources, join newline (take 8 allSnippets)))"

definition callGeminiWithSearch :: "world \<Rightarrow> string \<Rightarrow> searched io" where
  "callGeminiWithSearch w userInput =
     bind (await_fetch w) (\<lambda>firstRes.
       if \<not> ok firstRes then
         unit_io (SearchedError
           (if code firstRes = 429 then ''Rate limit exceeded. Please try again later.''
            else if code firstRes = 402 then ''AI service quota exceeded. Please try again later.''
            else ''Failed to analyze content''))
       else
         bind (lift (res_json firstRes)) (\<lambda>firstData.
         bind (lift (getProp (Val firstData) ''choices'')) (\<lambda>choices.
         bind (lift (iterate (coalesce
                 (optProp (optProp (optIndex0 choices) ''message'') ''tool_calls'')
                 (Val (JArr []))))) (\<lambda>toolCalls.
           let found = searchQueries w toolCalls [];
               queries = (if length found = 0 then [str (take 200 userInput)] else found)
           in
           bind (gatherEvidence w queries) (\<lambda>(topSources, evidenceText).
           bind (await_fetch w) (\<lambda>analysisRes.
             if \<not> ok analysisRes then unit_io (SearchedError ''Failed to analyze content'')
             else
               bind (lift (res_json analysisRes)) (\<lambda>analysisData.
               bind (lift (getProp (Val analysisData) ''choices'')) (\<lambda>cs.
                 let content = optProp (optProp (optIndex0 cs) ''message'') ''content'' in
                 if \<not> truthy content then unit_io (SearchedError ''Invalid AI response'')
                 else unit_io (Searched content topSources)))))))))"

subsection \<open>The handler\<close>

text \<open>
  \<^verbatim>\<open>replace(/```(?:json)?\s*/g, "")\<close> and \<^verbatim>\<open>replace(/```/g, "")\<close>: the matches are taken from
  the left, each search starting behind the match before it.
\<close>

definition dropJson :: "string \<Rightarrow> string" where
  "dropJson rest = (if startsWith rest ''json'' then drop 4 rest else rest)"

function removeOpeners :: "string \<Rightarrow> string" where
  "removeOpeners (a # b # c # s) =
     (if a = CHR 0x60 \<and> b = CHR 0x60 \<and> c = CHR 0x60
      then removeOpeners (dropWhile is_ws (dropJson s))
      else a # removeOpeners (b # c # s))"
| "removeOpeners [a, b] = [a, b]"
| "removeOpeners [a] = [a]"
| "removeOpeners [] = []"
  by pat_completeness auto
termination
proof (relation "measure length")
  show "wf (measure length)" by simp
next
  fix a b c :: char and s :: string
  have "length (dropWhile is_ws (dropJson s)) \<le> length (dropJson s)"
    by (rule length_dropWhile_le)
  also have "\<dots> \<le> length s"
    by (simp add: dropJson_def)
  finally show "(dropWhile is_ws (dropJson s), a # b # c # s) \<in> measure length"
    by simp
next
  fix a b c :: char and s :: string
  show "(b # c # s, a # b # c # s) \<in> measure length" by simp
qed

fun removeFences :: "string \<Rightarrow> string" where
  "removeFences (a # b # c # s) =
     (if a = CHR 0x60 \<and> b = CHR 0x60 \<and> c = CHR 0x60
      then removeFences s
      else a # removeFences (b # c # s))"
| "removeFences s = s"

fun cleanedJson :: "world \<Rightarrow> jsval \<Rightarrow> exn + json" where
  "cleanedJson w (Val (JStr content)) =
     (case JSON_parse w (trim (removeFences (removeOpeners content))) of
        None \<Rightarrow> Inl SyntaxError
      | Some a \<Rightarrow> Inr a)"
| "cleanedJson w v = Inl TypeError"

definition parseAnalysis_search :: "world \<Rightarrow> jsval \<Rightarrow> json" where
  "parseAnalysis_search w content =
     (case cleanedJson w content of
        Inl err \<Rightarrow> candidate ''Unable to fully parse analysis. Please try again.''
      | Inr a \<Rightarrow> a)"

definition withSourcesOnly :: "verdict_fields \<Rightarrow> 's list \<Rightarrow> 's sourced" where
  "withSourcesOnly r ss =
     \<lparr>verdict = verdict r, confidence = confidence r, explanation = explanation r,
      redFlags = redFlags r, sources = ss\<rparr>"

definition errorResponse_search :: "nat \<Rightarrow> errtext \<Rightarrow> 'r response" where
  "errorResponse_search st m = new_Response (Some (ErrorBody m)) (Some st) jsonHeaders_search"

definition tryBody_search :: "world \<Rightarrow> request \<Rightarrow> Source sourced response io" where
  "tryBody_search w req =
     bind (lift (case json_body req of None \<Rightarrow> Inl SyntaxError | Some b \<Rightarrow> Inr b)) (\<lambda>b.
     bind (lift (getProp (Val b) ''text'')) (\<lambda>text.
       if rejected text then
         unit_io (errorResponse_search 400 (Text ''Please provide text to analyze''))
       else if \<not> configured (LOVABLE_API_KEY w) then throw (Error ''AI service is not configured'')
       else
         bind (callGeminiWithSearch w (trim (the_string text))) (\<lambda>result.
           case result of
             SearchedError m \<Rightarrow> unit_io (errorResponse_search 500 (Text m))
           | Searched content topSources \<Rightarrow>
               bind (lift (sanitize (parseAnalysis_search w content))) (\<lambda>r.
                 unit_io (new_Response (Some (ResultBody (withSourcesOnly r topSources))) None
                            jsonHeaders_search)))))"

definition handler_search :: "world \<Rightarrow> request \<Rightarrow> Source sourced response \<times> nat" where
  "handler_search w req =
     (if req_method req = ''OPTIONS'' then (new_Response None None corsHeaders_search, 0)
      else catch_all (tryBody_search w req)
             (\<lambda>error. errorResponse_search 500 (message error)) 0)"


section \<open>The specification's words\<close>

text \<open>
  The sanitizer as the specification words it. Confidence: pass through only if numeric,
  clamp to the interval from 0 to 100, round to the nearest integer; otherwise 50.
\<close>

fun spec_confidence :: "jsval \<Rightarrow> jsnum" where
  "spec_confidence (Val (JNum x)) = Math_round (Math_min (Fin 100) (Math_max (Fin 0) x))"
| "spec_confidence v = Fin 50"

text \<open>
  Verdict: pass through only if it is exactly one of the three strings; otherwise
  \<^verbatim>\<open>uncertain\<close>.
\<close>

definition spec_verdict :: "jsval \<Rightarrow> string" where
  "spec_verdict v =
     (if v = str ''real'' then ''real'' else if v = str ''fake'' then ''fake'' else ''uncertain'')"

text \<open>The names listed in the value of a header, separated by commas.\<close>

fun split :: "char \<Rightarrow> string \<Rightarrow> string list" where
  "split c [] = [[]]"
| "split c (x # xs) =
     (if x = c then [] # split c xs
      else (case split c xs of [] \<Rightarrow> [[x]] | y # ys \<Rightarrow> (x # y) # ys))"

definition listed :: "string \<Rightarrow> string list" where
  "listed v = map trim (split (CHR '','') v)"

definition allowedHeaders :: "(string \<times> string) list \<Rightarrow> string list" where
  "allowedHeaders hs =
     (case map_of hs ''Access-Control-Allow-Headers'' of None \<Rightarrow> [] | Some v \<Rightarrow> listed v)"

text \<open>
  Deduplication by URL in first-seen order, told from the front of the list: the first
  record stays, the later records with its URL go.
\<close>

definition sameUrl :: "Source \<Rightarrow> Source \<Rightarrow> bool" where
  "sameUrl a b = strictEq (url a) (url b)"

function firstSeen :: "Source list \<Rightarrow> Source list" where
  "firstSeen [] = []"
| "firstSeen (r # rs) = r # firstSeen (filter (\<lambda>x. \<not> sameUrl r x) rs)"
  by pat_completeness auto
termination
  by (relation "measure length") (simp_all add: less_Suc_eq_le)

section \<open>What a computation yields\<close>

text \<open>
  \<open>yields m P\<close>: whenever \<open>m\<close> ends with a value, the value satisfies \<open>P\<close>.
  \<open>returns m P\<close>: \<open>m\<close> always ends with a value, and the value satisfies \<open>P\<close>.
\<close>

definition yields :: "'a io \<Rightarrow> ('a \<Rightarrow> bool) \<Rightarrow> bool" where
  "yields m P = (\<forall>n x n'. m n = (Inr x, n') \<longrightarrow> P x)"

definition returns :: "'a io \<Rightarrow> ('a \<Rightarrow> bool) \<Rightarrow> bool" where
  "returns m P = (\<forall>n. \<exists>x n'. m n = (Inr x, n') \<and> P x)"

text \<open>The four fields of a result are those the sanitizer makes of some candidate.\<close>

definition sanitized :: "'z verdict_fields_scheme \<Rightarrow> bool" where
  "sanitized r =
     (\<exists>a. verdict r = sanVerdict (optProp (Val a) ''verdict'') \<and>
          confidence r = sanConfidence (optProp (Val a) ''confidence'') \<and>
          explanation r = sanExplanation (optProp (Val a) ''explanation'') \<and>
          redFlags r = sanRedFlags (optProp (Val a) ''redFlags''))"

text \<open>
  A response of the \<^verbatim>\<open>try\<close> block or of its \<^verbatim>\<open>catch\<close>: the given headers, and a sanitized
  result with status 200 or an error with status 400 or 500.
\<close>

definition wellFormed ::
  "(string \<times> string) list \<Rightarrow> ('z verdict_fields_scheme) response \<Rightarrow> bool" where
  "wellFormed hs resp =
     (headers resp = hs \<and>
      (case body resp of
         Some (ResultBody r) \<Rightarrow> sanitized r \<and> status resp = 200
       | Some (ErrorBody m) \<Rightarrow> status resp = 400 \<or> status resp = 500
       | None \<Rightarrow> False))"

section \<open>Examples\<close>

text \<open>A gateway answer \<^verbatim>\<open>{ choices: [{ message: { content } }] }\<close> with status 200.\<close>

definition reply :: "string \<Rightarrow> fetched" where
  "reply content =
     Resolved \<lparr>code = 200, payload = Some (JObj [(''choices'',
       JArr [JObj [(''message'', JObj [(''content'', JStr content)])]])])\<rparr>"

definition example_answer :: string where
  \<open>example_answer =
     ''{"verdict":"fake","confidence":87.5,"explanation":"No such event.","redFlags":["no source",3]}''\<close>

definition example_candidate :: json where
  "example_candidate =
     JObj [(''verdict'', JStr ''fake''), (''confidence'', JNum (Fin (175 / 2))),
           (''explanation'', JStr ''No such event.''),
           (''redFlags'', JArr [JStr ''no source'', JNum (Fin 3)])]"

text \<open>
  \<^verbatim>\<open>JSON.parse\<close> on the texts of the examples: \<open>example_answer\<close>, and texts that are not
  JSON.
\<close>

definition example_parse :: "string \<Rightarrow> json option" where
  "example_parse s = (if s = example_answer then Some example_candidate else None)"

text \<open>
  A world with the gateway key and no search key, where the classifier asks for a live
  search and the model then answers \<open>example_answer\<close>.
\<close>

definition example_world :: world where
  "example_world =
     \<lparr>LOVABLE_API_KEY = Some ''key'', SERPAPI_KEY = None, JSON_parse = example_parse,
      ToString = the_string,
      fetch = (\<lambda>n. if n = 0 then reply ''LIVE_SEARCH_REQUIRED'' else reply example_answer)\<rparr>"

text \<open>The same world, where the model answers in prose.\<close>

definition prose_world :: world where
  "prose_world = example_world\<lparr>fetch := (\<lambda>n. reply ''I cannot verify this.'')\<rparr>"

text \<open>
  A world with the gateway key only, where the model answers every call with
  \<open>plain_answer\<close>; \<^verbatim>\<open>JSON.parse\<close> on that text and on texts that are not JSON.
\<close>

definition plain_answer :: string where
  \<open>plain_answer = ''{"verdict":"real","confidence":120}''\<close>

definition search_parse :: "string \<Rightarrow> json option" where
  "search_parse s =
     (if s = plain_answer
      then Some (JObj [(''verdict'', JStr ''real''), (''confidence'', JNum (Fin 120))])
      else None)"

definition search_world :: world where
  "search_world =
     \<lparr>LOVABLE_API_KEY = Some ''key'', SERPAPI_KEY = None, JSON_parse = search_parse,
      ToString = the_string, fetch = (\<lambda>n. reply plain_answer)\<rparr>"

definition example_request :: request where
  "example_request =
     \<lparr>req_method = ''POST'',
      json_body = Some (JObj [(''text'', JStr ''The moon landed on Mars in 2025.'')])\<rparr>"

definition blank_request :: request where
  "blank_request = \<lparr>req_method = ''POST'', json_body = Some (JObj [(''text'', JStr ''   '')])\<rparr>"

definition preflight :: request where
  "preflight = \<lparr>req_method = ''OPTIONS'', json_body = None\<rparr>"

text \<open>
  A request that passes the first lines of a handler's \<^verbatim>\<open>try\<close> block: its method is not
  OPTIONS, its body is JSON with a text that is not rejected, and the gateway key is set.
\<close>

definition accepted :: "world \<Rightarrow> request \<Rightarrow> bool" where
  "accepted w req =
     (req_method req \<noteq> ''OPTIONS'' \<and>
      (case json_body req of
         None \<Rightarrow> False
       | Some b \<Rightarrow>
           (case getProp (Val b) ''text'' of Inl e \<Rightarrow> False | Inr text \<Rightarrow> \<not> rejected text)) \<and>
      configured (LOVABLE_API_KEY w))"

text \<open>
  The world of the examples with a search key, where the call of the search provider (the
  second call of \<^verbatim>\<open>fetch\<close>) is rejected: the provider cannot be reached.
\<close>

definition unreachable_world :: world where
  "unreachable_world =
     example_world\<lparr>SERPAPI_KEY := Some ''serp'',
                   fetch := (\<lambda>n. if n = 0 then reply ''LIVE_SEARCH_REQUIRED''
                                  else if n = 1 then Rejected
                                  else reply example_answer)\<rparr>"

text \<open>
  The world of the examples, where the grounded call (the second call of \<^verbatim>\<open>fetch\<close>) is
  answered with status 429 and the model answers the other calls in prose.
\<close>

definition fallback_world :: world where
  "fallback_world =
     example_world\<lparr>fetch := (\<lambda>n. if n = 1 then Resolved \<lparr>code = 429, payload = None\<rparr>
                                  else reply ''I cannot verify this.'')\<rparr>"

text \<open>A POST whose body is the JSON text \<^verbatim>\<open>null\<close>.\<close>

definition null_request :: request where
  "null_request = \<lparr>req_method = ''POST'', json_body = Some JNull\<rparr>"

text \<open>What the first \<^verbatim>\<open>try\<close> of \<^verbatim>\<open>performWebSearch\<close> leaves: nothing, or at most 5 records.\<close>

definition atMost5 :: "Source list option \<Rightarrow> bool" where
  "atMost5 r = (case r of None \<Rightarrow> True | Some rs \<Rightarrow> length rs \<le> 5)"

text \<open>
  The lists that \<^verbatim>\<open>performWebSearch\<close> returns for the queries one after another, one list
  per query, the first search starting when \<open>n\<close> calls of \<^verbatim>\<open>fetch\<close> have been made and each
  later one where the search before it ended.
\<close>

fun searchResults :: "world \<Rightarrow> jsval list \<Rightarrow> nat \<Rightarrow> Source list list" where
  "searchResults w [] n = []"
| "searchResults w (query # queries) n =
     (case performWebSearch w query n of
        (Inr results, n') \<Rightarrow> results # searchResults w queries n'
      | (Inl e, n') \<Rightarrow> [])"

text \<open>A source record of which the line for the prompt can be rendered.\<close>

definition rendered :: "Source \<Rightarrow> bool" where
  "rendered r = (textual (title r) \<and> textual (snippet r) \<and> textual (url r))"

text \<open>A source record whose three fields are texts.\<close>

definition src :: "string \<Rightarrow> string \<Rightarrow> string \<Rightarrow> Source" where
  "src t u s = \<lparr>title = str t, url = str u, snippet = str s\<rparr>"

text \<open>
  A world with both keys, where SerpAPI answers the first search with two results and
  every later search with two results of which the first repeats a URL of the first
  search.
\<close>

definition organic :: "(string \<times> string \<times> string) list \<Rightarrow> fetched" where
  "organic rs =
     Resolved \<lparr>code = 200, payload = Some (JObj [(''organic_results'',
       JArr (map (\<lambda>(t, l, s). JObj [(''title'', JStr t), (''link'', JStr l), (''snippet'', JStr s)])
              rs))])\<rparr>"

definition results_world :: world where
  "results_world =
     \<lparr>LOVABLE_API_KEY = Some ''key'', SERPAPI_KEY = Some ''serp'', JSON_parse = example_parse,
      ToString = the_string,
      fetch = (\<lambda>n. if n = 0 then organic [(''First'', ''u1'', ''a''), (''Second'', ''u2'', ''b'')]
                     else organic [(''Third'', ''u1'', ''c''), (''Fourth'', ''u3'', ''d'')])\<rparr>"

section \<open>Lemmas\<close>

subsection \<open>Rounding and clamping\<close>

lemma floor_half:
  "\<lfloor>(1 / 2 :: rat)\<rfloor> = 0" "\<lfloor>(201 / 2 :: rat)\<rfloor> = 100" "\<lfloor>(100 + 1 / 2 :: rat)\<rfloor> = 100"
  by linarith+

lemma round_clamp_commute:
  fixes q :: rat
  shows "min 100 (max 0 (of_int \<lfloor>q + 1 / 2\<rfloor>)) = (of_int \<lfloor>min 100 (max 0 q) + 1 / 2\<rfloor> :: rat)"
proof -
  consider "q \<le> 0" | "100 \<le> q" | "0 < q" "q < 100" by linarith
  then show ?thesis
  proof cases
    case 1
    then have "\<lfloor>q + 1 / 2\<rfloor> \<le> 0" by (simp add: floor_le_iff)
    then have "(of_int \<lfloor>q + 1 / 2\<rfloor> :: rat) \<le> 0" by simp
    moreover have "max 0 q = 0" using 1 by simp
    ultimately show ?thesis by (simp add: floor_half)
  next
    case 2
    then have "100 \<le> \<lfloor>q + 1 / 2\<rfloor>" by (simp add: le_floor_iff)
    then have "(100 :: rat) \<le> of_int \<lfloor>q + 1 / 2\<rfloor>" by (metis of_int_le_iff of_int_numeral)
    moreover have "min 100 (max 0 q) = 100" using 2 by simp
    ultimately show ?thesis by (simp add: floor_half)
  next
    case 3
    then have a: "0 \<le> \<lfloor>q + 1 / 2\<rfloor>" by (simp add: le_floor_iff)
    have b: "\<lfloor>q + 1 / 2\<rfloor> \<le> 100" using 3 by (simp add: floor_le_iff)
    have a': "(0 :: rat) \<le> of_int \<lfloor>q + 1 / 2\<rfloor>" using a by simp
    have b': "of_int \<lfloor>q + 1 / 2\<rfloor> \<le> (100 :: rat)" using b by (metis of_int_le_iff of_int_numeral)
    have eq: "min 100 (max 0 q) = q" using 3 by simp
    have "min 100 (max 0 (of_int \<lfloor>q + 1 / 2\<rfloor>)) = (of_int \<lfloor>q + 1 / 2\<rfloor> :: rat)"
      using a' b' by linarith
    then show ?thesis by (simp only: eq)
  qed
qed

lemma sanConfidence_spec: "sanConfidence v = spec_confidence v"
proof (cases v rule: sanConfidence.cases)
  case (1 x)
  then show ?thesis by (cases x) (simp_all add: round_clamp_commute floor_half)
qed simp_all

lemma sanConfidence_range: "\<exists>n::int. 0 \<le> n \<and> n \<le> 100 \<and> sanConfidence v = Fin (of_int n)"
proof (cases v rule: sanConfidence.cases)
  case (1 x)
  show ?thesis
  proof (cases x)
    case (Fin q)
    have "min 100 (max 0 (of_int \<lfloor>q + 1 / 2\<rfloor>)) = (of_int (min 100 (max 0 \<lfloor>q + 1 / 2\<rfloor>)) :: rat)"
      by (simp add: min_def max_def)
    then show ?thesis using 1 Fin
      by (intro exI[of _ "min 100 (max 0 \<lfloor>q + 1 / 2\<rfloor>)"]) simp
  next
    case PosInf
    then show ?thesis using 1 by (intro exI[of _ 100]) simp
  next
    case NegInf
    then show ?thesis using 1 by (intro exI[of _ 0]) simp
  qed
qed (auto intro: exI[of _ 50])

lemma sanConfidence_idem: "sanConfidence (Val (JNum (sanConfidence v))) = sanConfidence v"
proof -
  obtain n :: int where n: "0 \<le> n" "n \<le> 100" "sanConfidence v = Fin (of_int n)"
    using sanConfidence_range by blast
  have "\<lfloor>(of_int n :: rat) + 1 / 2\<rfloor> = n" by linarith
  moreover have "(0::rat) \<le> of_int n" "(of_int n :: rat) \<le> 100" using n by simp_all
  ultimately show ?thesis using n by (simp add: min_def max_def)
qed

text \<open>The integer the sanitizer gives is within one half of the clamped number.\<close>

lemma sanConfidence_nearest:
  "\<exists>n::int. sanConfidence (Val (JNum (Fin x))) = Fin (of_int n) \<and>
     \<bar>of_int n - min 100 (max 0 x)\<bar> \<le> 1 / 2"
proof -
  let ?c = "min 100 (max 0 x)"
  have "sanConfidence (Val (JNum (Fin x))) = Fin (of_int \<lfloor>?c + 1 / 2\<rfloor>)"
    by (simp add: round_clamp_commute)
  moreover have "\<bar>of_int \<lfloor>?c + 1 / 2\<rfloor> - ?c\<bar> \<le> 1 / 2" by linarith
  ultimately show ?thesis by blast
qed

lemma sanVerdict_spec: "sanVerdict v = spec_verdict v"
  by (cases v rule: sanVerdict.cases) (auto simp: spec_verdict_def str_def)

lemma sanVerdict_range: "sanVerdict v \<in> {''real'', ''fake'', ''uncertain''}"
  by (cases v rule: sanVerdict.cases) auto

lemma sanitize_total:
  "a \<noteq> JNull \<Longrightarrow>
   sanitize a =
     Inr \<lparr>verdict = sanVerdict (optProp (Val a) ''verdict''),
          confidence = sanConfidence (optProp (Val a) ''confidence''),
          explanation = sanExplanation (optProp (Val a) ''explanation''),
          redFlags = sanRedFlags (optProp (Val a) ''redFlags'')\<rparr>"
  by (cases a) (simp_all add: sanitize_def bindE_def optProp_def)

lemma sanitize_Inr: "sanitize a = Inr r \<Longrightarrow> sanitized r"
  unfolding sanitized_def
  by (rule exI[of _ a], cases a) (auto simp: sanitize_def bindE_def optProp_def)

lemma sanitized_confidence:
  "sanitized r \<Longrightarrow> \<exists>n::int. 0 \<le> n \<and> n \<le> 100 \<and> confidence r = Fin (of_int n)"
  using sanConfidence_range by (auto simp: sanitized_def)

lemma sanitized_verdict:
  assumes "sanitized r"
  shows "verdict r \<in> {''real'', ''fake'', ''uncertain''}"
proof -
  obtain a where "verdict r = sanVerdict (optProp (Val a) ''verdict'')"
    using assms by (auto simp: sanitized_def)
  then show ?thesis by (simp only: sanVerdict_range)
qed


subsection \<open>Rules for what a computation yields\<close>

lemma yields_unit: "P x \<Longrightarrow> yields (unit_io x) P"
  by (simp add: yields_def unit_io_def)

lemma yields_throw: "yields (throw e) P"
  by (simp add: yields_def throw_def)

lemma yields_lift: "(\<And>x. m = Inr x \<Longrightarrow> P x) \<Longrightarrow> yields (lift m) P"
  by (simp add: yields_def lift_def)

lemma yields_bind: "yields m Q \<Longrightarrow> (\<And>x. Q x \<Longrightarrow> yields (f x) P) \<Longrightarrow> yields (bind m f) P"
  unfolding yields_def bind_def by (fastforce split: prod.splits sum.splits)

lemma yields_True: "yields m (\<lambda>x. True)"
  by (simp add: yields_def)

lemma yields_bind_any: "(\<And>x. yields (f x) P) \<Longrightarrow> yields (bind m f) P"
  by (rule yields_bind[OF yields_True])

lemma yields_try_catch: "yields m P \<Longrightarrow> (\<And>e. yields (h e) P) \<Longrightarrow> yields (try_catch m h) P"
  unfolding yields_def try_catch_def by (fastforce split: prod.splits sum.splits)

lemma yields_gemini:
  "(\<And>m. yields (f m) P) \<Longrightarrow> (\<And>c. yields (g c) P) \<Longrightarrow>
   yields (case x of GError m \<Rightarrow> f m | GContent c \<Rightarrow> g c) P"
  by (cases x) simp_all

lemma yields_grounded:
  "(\<And>m. yields (f m) P) \<Longrightarrow> (\<And>c s. yields (g c s) P) \<Longrightarrow>
   yields (case x of GroundedError m \<Rightarrow> f m | Grounded c s \<Rightarrow> g c s) P"
  by (cases x) simp_all

lemma yields_searched:
  "(\<And>m. yields (f m) P) \<Longrightarrow> (\<And>c s. yields (g c s) P) \<Longrightarrow>
   yields (case x of SearchedError m \<Rightarrow> f m | Searched c s \<Rightarrow> g c s) P"
  by (cases x) simp_all

lemma yields_prod: "(\<And>a b. yields (f a b) P) \<Longrightarrow> yields (case x of (a, b) \<Rightarrow> f a b) P"
  by (cases x) simp

lemma yields_if: "(c \<Longrightarrow> yields a P) \<Longrightarrow> (\<not> c \<Longrightarrow> yields b P) \<Longrightarrow> yields (if c then a else b) P"
  by simp

lemma yields_sanitize:
  "(\<And>r. sanitized r \<Longrightarrow> yields (f r) P) \<Longrightarrow> yields (bind (lift (sanitize a)) f) P"
  by (rule yields_bind[where Q = sanitized]) (auto intro: yields_lift sanitize_Inr)

subsection \<open>Every response of a handler is well formed\<close>

lemma sanitized_withSources: "sanitized r \<Longrightarrow> sanitized (withSources r m ss)"
  by (simp add: sanitized_def withSources_def)

lemma sanitized_withSourcesOnly: "sanitized r \<Longrightarrow> sanitized (withSourcesOnly r ss)"
  by (simp add: sanitized_def withSourcesOnly_def)

lemma wellFormed_ok: "sanitized r \<Longrightarrow> wellFormed jsonHeaders (okResponse r)"
  by (simp add: wellFormed_def okResponse_def new_Response_def)

lemma wellFormed_error: "st = 400 \<or> st = 500 \<Longrightarrow> wellFormed jsonHeaders (errorResponse st m)"
  by (auto simp add: wellFormed_def errorResponse_def new_Response_def)

lemma wellFormed_error_search:
  "st = 400 \<or> st = 500 \<Longrightarrow> wellFormed jsonHeaders_search (errorResponse_search st m)"
  by (auto simp add: wellFormed_def errorResponse_search_def new_Response_def)

lemma wellFormed_ok_search:
  "sanitized r \<Longrightarrow>
   wellFormed jsonHeaders_search (new_Response (Some (ResultBody r)) None jsonHeaders_search)"
  by (simp add: wellFormed_def new_Response_def)

lemma pipeline_plain_yields: "yields (pipeline_plain w) (wellFormed jsonHeaders)"
  unfolding pipeline_plain_def
  by (intro yields_sanitize yields_bind_any yields_gemini yields_prod yields_unit
        wellFormed_ok wellFormed_error sanitized_withSources) simp_all

lemma tryBody_plain_yields: "yields (tryBody_plain w req) (wellFormed jsonHeaders)"
  unfolding tryBody_plain_def
  by (intro yields_bind_any yields_if yields_unit yields_throw pipeline_plain_yields
        wellFormed_error) simp_all

lemma fallbackAnalysis_yields: "yields (fallbackAnalysis w needs) (wellFormed jsonHeaders)"
  unfolding fallbackAnalysis_def
  by (intro yields_sanitize yields_bind_any yields_grounded yields_prod yields_unit
        wellFormed_ok wellFormed_error sanitized_withSources) simp_all

lemma pipeline_grounded_yields: "yields (pipeline_grounded w) (wellFormed jsonHeaders)"
  unfolding pipeline_grounded_def
  by (intro yields_sanitize yields_bind_any yields_grounded yields_unit fallbackAnalysis_yields
        wellFormed_ok wellFormed_error sanitized_withSources) simp_all

lemma tryBody_grounded_yields: "yields (tryBody_grounded w req) (wellFormed jsonHeaders)"
  unfolding tryBody_grounded_def
  by (intro yields_bind_any yields_if yields_unit yields_throw pipeline_grounded_yields
        wellFormed_error) simp_all

lemma tryBody_search_yields: "yields (tryBody_search w req) (wellFormed jsonHeaders_search)"
  unfolding tryBody_search_def
  by (intro yields_sanitize yields_bind_any yields_if yields_searched yields_unit yields_throw
        wellFormed_error_search wellFormed_ok_search sanitized_withSourcesOnly) simp_all

lemma catch_all_wellFormed:
  assumes "yields m (wellFormed hs)" and "\<And>e. wellFormed hs (h e)"
  shows "wellFormed hs (fst (catch_all m h n))"
proof (cases "m n")
  case (Pair r n')
  show ?thesis
  proof (cases r)
    case (Inl e)
    then show ?thesis using Pair assms(2) by (simp add: catch_all_def)
  next
    case (Inr x)
    then have "wellFormed hs x" using Pair assms(1) by (auto simp: yields_def)
    then show ?thesis using Pair Inr by (simp add: catch_all_def)
  qed
qed

lemma handler_plain_wellFormed:
  "req_method req \<noteq> ''OPTIONS'' \<Longrightarrow> wellFormed jsonHeaders (fst (handler_plain w req))"
  by (simp add: handler_plain_def catch_all_wellFormed tryBody_plain_yields wellFormed_error)

lemma handler_grounded_wellFormed:
  "req_method req \<noteq> ''OPTIONS'' \<Longrightarrow> wellFormed jsonHeaders (fst (handler_grounded w req))"
  by (simp add: handler_grounded_def catch_all_wellFormed tryBody_grounded_yields wellFormed_error)

lemma handler_search_wellFormed:
  "req_method req \<noteq> ''OPTIONS'' \<Longrightarrow> wellFormed jsonHeaders_search (fst (handler_search w req))"
  by (simp add: handler_search_def catch_all_wellFormed tryBody_search_yields
      wellFormed_error_search)

lemma handler_preflight:
  assumes "req_method req = ''OPTIONS''"
  shows "handler_plain w req = (\<lparr>status = 200, headers = corsHeaders, body = None\<rparr>, 0)"
    and "handler_grounded w req = (\<lparr>status = 200, headers = corsHeaders, body = None\<rparr>, 0)"
    and "handler_search w req = (\<lparr>status = 200, headers = corsHeaders_search, body = None\<rparr>, 0)"
  using assms by (simp_all add: handler_plain_def handler_grounded_def handler_search_def new_Response_def)

text \<open>A result in the body of a response went through the sanitizer.\<close>

lemma handler_plain_result:
  "body (fst (handler_plain w req)) = Some (ResultBody r) \<Longrightarrow> sanitized r"
  using handler_plain_wellFormed[of req w] handler_preflight(1)[of req w]
  by (cases "req_method req = ''OPTIONS''") (auto simp: wellFormed_def)

lemma handler_grounded_result:
  "body (fst (handler_grounded w req)) = Some (ResultBody r) \<Longrightarrow> sanitized r"
  using handler_grounded_wellFormed[of req w] handler_preflight(2)[of req w]
  by (cases "req_method req = ''OPTIONS''") (auto simp: wellFormed_def)

lemma handler_search_result:
  "body (fst (handler_search w req)) = Some (ResultBody r) \<Longrightarrow> sanitized r"
  using handler_search_wellFormed[of req w] handler_preflight(3)[of req w]
  by (cases "req_method req = ''OPTIONS''") (auto simp: wellFormed_def)

lemmas run_plain =
  handler_plain_def catch_all_def tryBody_plain_def bind_def lift_def unit_io_def throw_def
  rejected_def trim_def is_ws_def pipeline_plain_def callGemini_def await_fetch_def ok_def
  res_json_def optProp_def liveEvidence_def runLiveSearch_def configured_def noSearch_def
  parseAnalysis_def candidate_def sanitize_def bindE_def okResponse_def withSources_def
  new_Response_def errorResponse_def str_def fenced_def fence_def

lemmas run_grounded =
  handler_grounded_def tryBody_grounded_def pipeline_grounded_def callGemini_grounded_def
  groundingMeta_def coalesce_def or_else_def fallbackAnalysis_def runLiveSearch_grounded_def
  parseAnalysis_fallback_def liveEvidence_grounded_def asUrl_def

lemmas run_search =
  handler_search_def tryBody_search_def callGeminiWithSearch_def gatherEvidence_def
  performWebSearch_def geminiSearch_def try_catch_def bracketed_def parseAnalysis_search_def
  withSourcesOnly_def errorResponse_search_def jsonHeaders_search_def toText_def textual_def

lemmas examples =
  example_world_def prose_world_def example_request_def blank_request_def preflight_def
  reply_def example_parse_def example_answer_def example_candidate_def search_world_def
  search_parse_def plain_answer_def

section \<open>The claims\<close>

text \<open>
  C1. For every candidate, the confidence of the sanitized response is an integer from 0
  to 100. A numeric confidence is clamped to that interval and rounded to the nearest
  integer (the sanitizer rounds first and clamps then, which comes to the same), any
  other is replaced by 50, and sanitizing a sanitized confidence changes nothing. The
  candidate \<^verbatim>\<open>null\<close> has no fields to read and is left out; the results in the responses
  of the three handlers are covered whatever the request and the world.
\<close>

theorem confidence_integer_in_range:
  "(a \<noteq> JNull \<longrightarrow>
      (\<exists>r. sanitize a = Inr r \<and>
           confidence r = spec_confidence (optProp (Val a) ''confidence''))) \<and>
   (\<forall>r. sanitize a = Inr r \<longrightarrow>
      (\<exists>n::int. 0 \<le> n \<and> n \<le> 100 \<and> confidence r = Fin (of_int n)) \<and>
      sanConfidence (Val (JNum (confidence r))) = confidence r) \<and>
   (\<forall>x r. sanitize a = Inr r \<and> optProp (Val a) ''confidence'' = Val (JNum (Fin x)) \<longrightarrow>
      (\<exists>n::int. confidence r = Fin (of_int n) \<and> \<bar>of_int n - min 100 (max 0 x)\<bar> \<le> 1 / 2)) \<and>
   (\<forall>r. body (fst (handler_plain w req)) = Some (ResultBody r) \<longrightarrow>
      (\<exists>n::int. 0 \<le> n \<and> n \<le> 100 \<and> confidence r = Fin (of_int n))) \<and>
   (\<forall>r. body (fst (handler_grounded w req)) = Some (ResultBody r) \<longrightarrow>
      (\<exists>n::int. 0 \<le> n \<and> n \<le> 100 \<and> confidence r = Fin (of_int n))) \<and>
   (\<forall>r. body (fst (handler_search w req)) = Some (ResultBody r) \<longrightarrow>
      (\<exists>n::int. 0 \<le> n \<and> n \<le> 100 \<and> confidence r = Fin (of_int n)))"
proof (intro conjI allI impI)
  assume "a \<noteq> JNull"
  then show "\<exists>r. sanitize a = Inr r \<and>
      confidence r = spec_confidence (optProp (Val a) ''confidence'')"
    by (simp add: sanitize_total sanConfidence_spec)
next
  fix r assume "sanitize a = Inr r"
  then show "\<exists>n::int. 0 \<le> n \<and> n \<le> 100 \<and> confidence r = Fin (of_int n)"
    by (intro sanitized_confidence sanitize_Inr)
next
  fix r assume "sanitize a = Inr r"
  then have "sanitized r" by (rule sanitize_Inr)
  then obtain c where "confidence r = sanConfidence c"
    by (auto simp: sanitized_def)
  then show "sanConfidence (Val (JNum (confidence r))) = confidence r"
    by (simp only: sanConfidence_idem)
next
  fix x r
  assume h: "sanitize a = Inr r \<and> optProp (Val a) ''confidence'' = Val (JNum (Fin x))"
  then have "a \<noteq> JNull" by (auto simp: sanitize_def bindE_def)
  then have "confidence r = sanConfidence (Val (JNum (Fin x)))"
    using h by (auto simp: sanitize_total)
  then show "\<exists>n::int. confidence r = Fin (of_int n) \<and> \<bar>of_int n - min 100 (max 0 x)\<bar> \<le> 1 / 2"
    using sanConfidence_nearest[of x] by simp
next
  fix r assume "body (fst (handler_plain w req)) = Some (ResultBody r)"
  then show "\<exists>n::int. 0 \<le> n \<and> n \<le> 100 \<and> confidence r = Fin (of_int n)"
    by (intro sanitized_confidence handler_plain_result)
next
  fix r assume "body (fst (handler_grounded w req)) = Some (ResultBody r)"
  then show "\<exists>n::int. 0 \<le> n \<and> n \<le> 100 \<and> confidence r = Fin (of_int n)"
    by (intro sanitized_confidence handler_grounded_result)
next
  fix r assume "body (fst (handler_search w req)) = Some (ResultBody r)"
  then show "\<exists>n::int. 0 \<le> n \<and> n \<le> 100 \<and> confidence r = Fin (of_int n)"
    by (intro sanitized_confidence handler_search_result)
qed


theorem confidence_integer_in_range_witness:
  "example_candidate \<noteq> JNull \<and>
   sanitize example_candidate =
     Inr \<lparr>verdict = ''fake'', confidence = Fin 88, explanation = ''No such event.'',
          redFlags = [''no source'']\<rparr> \<and>
   optProp (Val example_candidate) ''confidence'' = Val (JNum (Fin (175 / 2))) \<and>
   spec_confidence (Val (JNum (Fin (175 / 2)))) = Fin 88 \<and>
   sanConfidence (Val (JNum (Fin 88))) = Fin 88 \<and>
   body (fst (handler_plain example_world example_request)) =
     Some (ResultBody \<lparr>verdict = ''fake'', confidence = Fin 88,
       explanation = ''No such event.'', redFlags = [''no source''], sources = [],
       sourceMode = ''static''\<rparr>) \<and>
   body (fst (handler_grounded example_world example_request)) =
     Some (ResultBody \<lparr>verdict = ''fake'', confidence = Fin 88,
       explanation = ''No such event.'', redFlags = [''no source''], sources = [],
       sourceMode = ''static''\<rparr>) \<and>
   body (fst (handler_search search_world example_request)) =
     Some (ResultBody \<lparr>verdict = ''real'', confidence = Fin 100,
       explanation = ''Analysis complete.'', redFlags = [], sources = []\<rparr>) \<and>
   (\<exists>n::int. 0 \<le> n \<and> n \<le> 100 \<and> Fin 88 = Fin (of_int n)) \<and>
   (\<exists>n::int. 0 \<le> n \<and> n \<le> 100 \<and> Fin 100 = Fin (of_int n))"
proof -
  have run: "body (fst (handler_plain example_world example_request)) =
     Some (ResultBody \<lparr>verdict = ''fake'', confidence = Fin 88,
       explanation = ''No such event.'', redFlags = [''no source''], sources = [],
       sourceMode = ''static''\<rparr>)"
    by (simp add: run_plain examples)
  have rung: "body (fst (handler_grounded example_world example_request)) =
     Some (ResultBody \<lparr>verdict = ''fake'', confidence = Fin 88,
       explanation = ''No such event.'', redFlags = [''no source''], sources = [],
       sourceMode = ''static''\<rparr>)"
    by (simp add: run_plain run_grounded examples)
  have runs: "body (fst (handler_search search_world example_request)) =
     Some (ResultBody \<lparr>verdict = ''real'', confidence = Fin 100,
       explanation = ''Analysis complete.'', redFlags = [], sources = []\<rparr>)"
    by (simp add: run_plain run_grounded run_search examples floor_half)
  have san: "sanitize example_candidate =
     Inr \<lparr>verdict = ''fake'', confidence = Fin 88, explanation = ''No such event.'',
          redFlags = [''no source'']\<rparr>"
    by (simp add: sanitize_def bindE_def example_candidate_def)
  have conf: "optProp (Val example_candidate) ''confidence'' = Val (JNum (Fin (175 / 2)))"
    by (simp add: optProp_def example_candidate_def)
  have "\<exists>n::int. 0 \<le> n \<and> n \<le> 100 \<and> Fin 88 = Fin (of_int n)"
    using confidence_integer_in_range[of example_candidate example_world example_request]
      run rung
    by auto
  moreover have "\<exists>n::int. 0 \<le> n \<and> n \<le> 100 \<and> Fin 100 = Fin (of_int n)"
    using confidence_integer_in_range[of example_candidate search_world example_request] runs
    by auto
  moreover have "example_candidate \<noteq> JNull" by (simp add: example_candidate_def)
  moreover have "spec_confidence (Val (JNum (Fin (175 / 2)))) = Fin 88"
    using confidence_integer_in_range[of example_candidate example_world example_request] san conf
    by auto
  moreover have "sanConfidence (Val (JNum (Fin 88))) = Fin 88"
    using confidence_integer_in_range[of example_candidate example_world example_request] san
    by auto
  ultimately show ?thesis using run rung runs san conf by simp
qed

text \<open>
  C2. For every candidate, the verdict of the sanitized response is the candidate's
  verdict when that is exactly one of the strings \<^verbatim>\<open>real\<close>, \<^verbatim>\<open>fake\<close>, \<^verbatim>\<open>uncertain\<close>, and
  \<^verbatim>\<open>uncertain\<close> for every other value: another string, a number, an absent field. The
  candidate \<^verbatim>\<open>null\<close> has no fields to read and is left out; the results in the responses
  of the three handlers are covered whatever the request and the world.
\<close>

theorem verdict_passes_or_uncertain:
  "(a \<noteq> JNull \<longrightarrow>
      (\<exists>r. sanitize a = Inr r \<and> verdict r = spec_verdict (optProp (Val a) ''verdict''))) \<and>
   (\<forall>r s. sanitize a = Inr r \<and> optProp (Val a) ''verdict'' = Val (JStr s) \<and>
        s \<in> {''real'', ''fake'', ''uncertain''} \<longrightarrow> verdict r = s) \<and>
   (\<forall>r. sanitize a = Inr r \<and>
        optProp (Val a) ''verdict'' \<notin> {str ''real'', str ''fake'', str ''uncertain''} \<longrightarrow>
        verdict r = ''uncertain'') \<and>
   (\<forall>r. body (fst (handler_plain w req)) = Some (ResultBody r) \<longrightarrow>
      verdict r \<in> {''real'', ''fake'', ''uncertain''}) \<and>
   (\<forall>r. body (fst (handler_grounded w req)) = Some (ResultBody r) \<longrightarrow>
      verdict r \<in> {''real'', ''fake'', ''uncertain''}) \<and>
   (\<forall>r. body (fst (handler_search w req)) = Some (ResultBody r) \<longrightarrow>
      verdict r \<in> {''real'', ''fake'', ''uncertain''})"
proof (intro conjI allI impI)
  assume "a \<noteq> JNull"
  then show "\<exists>r. sanitize a = Inr r \<and> verdict r = spec_verdict (optProp (Val a) ''verdict'')"
    by (simp add: sanitize_total sanVerdict_spec)
next
  fix r s
  assume h: "sanitize a = Inr r \<and> optProp (Val a) ''verdict'' = Val (JStr s) \<and>
        s \<in> {''real'', ''fake'', ''uncertain''}"
  then have "a \<noteq> JNull" by (auto simp: sanitize_def bindE_def)
  then have "verdict r = sanVerdict (Val (JStr s))"
    using h by (auto simp: sanitize_total)
  then show "verdict r = s" using h by auto
next
  fix r
  assume h: "sanitize a = Inr r \<and>
        optProp (Val a) ''verdict'' \<notin> {str ''real'', str ''fake'', str ''uncertain''}"
  then have "a \<noteq> JNull" by (auto simp: sanitize_def bindE_def)
  then have "verdict r = spec_verdict (optProp (Val a) ''verdict'')"
    using h by (auto simp: sanitize_total sanVerdict_spec)
  then show "verdict r = ''uncertain''" using h by (simp add: spec_verdict_def)
next
  fix r assume "body (fst (handler_plain w req)) = Some (ResultBody r)"
  then show "verdict r \<in> {''real'', ''fake'', ''uncertain''}"
    by (intro sanitized_verdict handler_plain_result)
next
  fix r assume "body (fst (handler_grounded w req)) = Some (ResultBody r)"
  then show "verdict r \<in> {''real'', ''fake'', ''uncertain''}"
    by (intro sanitized_verdict handler_grounded_result)
next
  fix r assume "body (fst (handler_search w req)) = Some (ResultBody r)"
  then show "verdict r \<in> {''real'', ''fake'', ''uncertain''}"
    by (intro sanitized_verdict handler_search_result)
qed

theorem verdict_passes_or_uncertain_witness:
  "example_candidate \<noteq> JNull \<and>
   optProp (Val example_candidate) ''verdict'' = Val (JStr ''fake'') \<and>
   (\<exists>r. sanitize example_candidate = Inr r \<and> verdict r = ''fake'') \<and>
   (\<exists>r. sanitize (JObj [(''verdict'', JStr ''maybe'')]) = Inr r \<and> verdict r = ''uncertain'') \<and>
   (\<exists>r. sanitize (JObj [(''verdict'', JNum (Fin 42))]) = Inr r \<and> verdict r = ''uncertain'') \<and>
   (\<exists>r. sanitize (JObj []) = Inr r \<and> verdict r = ''uncertain'') \<and>
   (\<exists>r. body (fst (handler_plain example_world example_request)) = Some (ResultBody r) \<and>
        verdict r = ''fake'') \<and>
   (\<exists>r. body (fst (handler_grounded example_world example_request)) = Some (ResultBody r) \<and>
        verdict r = ''fake'') \<and>
   (\<exists>r. body (fst (handler_search search_world example_request)) = Some (ResultBody r) \<and>
        verdict r = ''real'')"
proof -
  have 1: "example_candidate \<noteq> JNull" by (simp add: example_candidate_def)
  have 2: "optProp (Val example_candidate) ''verdict'' = Val (JStr ''fake'')"
    by (simp add: optProp_def example_candidate_def)
  have 3: "\<exists>r. sanitize example_candidate = Inr r \<and> verdict r = ''fake''"
    using verdict_passes_or_uncertain[of example_candidate example_world example_request] 1 2
    by (auto simp: spec_verdict_def str_def)
  have 4: "\<exists>r. sanitize (JObj [(''verdict'', JStr ''maybe'')]) = Inr r \<and> verdict r = ''uncertain''"
    using verdict_passes_or_uncertain[of "JObj [(''verdict'', JStr ''maybe'')]" example_world example_request]
    by (auto simp: spec_verdict_def str_def optProp_def)
  have 5: "\<exists>r. sanitize (JObj [(''verdict'', JNum (Fin 42))]) = Inr r \<and> verdict r = ''uncertain''"
    using verdict_passes_or_uncertain[of "JObj [(''verdict'', JNum (Fin 42))]" example_world example_request]
    by (auto simp: spec_verdict_def str_def optProp_def)
  have 6: "\<exists>r. sanitize (JObj []) = Inr r \<and> verdict r = ''uncertain''"
    using verdict_passes_or_uncertain[of "JObj []" example_world example_request]
    by (auto simp: spec_verdict_def str_def optProp_def)
  have 7: "\<exists>r. body (fst (handler_plain example_world example_request)) = Some (ResultBody r) \<and>
        verdict r = ''fake''"
    by (simp add: run_plain examples)
  have 8: "\<exists>r. body (fst (handler_grounded example_world example_request)) = Some (ResultBody r) \<and>
        verdict r = ''fake''"
    by (simp add: run_plain run_grounded examples)
  have 9: "\<exists>r. body (fst (handler_search search_world example_request)) = Some (ResultBody r) \<and>
        verdict r = ''real''"
    by (simp add: run_plain run_grounded run_search examples floor_half)
  show ?thesis using 1 2 3 4 5 6 7 8 9 by blast
qed

text \<open>
  C3, as the code has it. A request whose method is OPTIONS is answered with an empty
  body and the CORS headers, allow-origin \<^verbatim>\<open>*\<close> and allow-headers naming authorization,
  content-type and apikey, and nothing is fetched. The status is 200: the handlers give
  \<^verbatim>\<open>new Response\<close> no status, in all three variants.
\<close>

theorem preflight_empty_200:
  assumes "req_method req = ''OPTIONS''"
  shows "handler_plain w req = (\<lparr>status = 200, headers = corsHeaders, body = None\<rparr>, 0) \<and>
         handler_grounded w req = (\<lparr>status = 200, headers = corsHeaders, body = None\<rparr>, 0) \<and>
         handler_search w req = (\<lparr>status = 200, headers = corsHeaders_search, body = None\<rparr>, 0) \<and>
         map_of corsHeaders ''Access-Control-Allow-Origin'' = Some ''*'' \<and>
         map_of corsHeaders_search ''Access-Control-Allow-Origin'' = Some ''*'' \<and>
         {''authorization'', ''content-type'', ''apikey''} \<subseteq> set (allowedHeaders corsHeaders) \<and>
         {''authorization'', ''content-type'', ''apikey''} \<subseteq> set (allowedHeaders corsHeaders_search)"
proof -
  have "allowedHeaders corsHeaders =
          [''authorization'', ''x-client-info'', ''apikey'', ''content-type'']"
    by (simp add: allowedHeaders_def corsHeaders_def listed_def trim_def is_ws_def)
  moreover have "allowedHeaders corsHeaders_search =
          [''authorization'', ''x-client-info'', ''apikey'', ''content-type'',
           ''x-supabase-client-platform'', ''x-supabase-client-platform-version'',
           ''x-supabase-client-runtime'', ''x-supabase-client-runtime-version'']"
    by (simp add: allowedHeaders_def corsHeaders_search_def listed_def trim_def is_ws_def)
  ultimately show ?thesis
    using handler_preflight[OF assms]
    by (simp add: corsHeaders_def corsHeaders_search_def)
qed

theorem preflight_empty_200_witness:
  "req_method preflight = ''OPTIONS'' \<and>
   handler_plain example_world preflight =
     (\<lparr>status = 200, headers = corsHeaders, body = None\<rparr>, 0)"
  using preflight_empty_200[of preflight example_world] by (simp add: preflight_def)

theorem preflight_status_counterexample:
  "status (fst (handler_plain example_world preflight)) \<noteq> 204 \<and>
   status (fst (handler_grounded example_world preflight)) \<noteq> 204 \<and>
   status (fst (handler_search example_world preflight)) \<noteq> 204"
  by (simp add: handler_plain_def handler_grounded_def handler_search_def new_Response_def
      preflight_def)

text \<open>
  C9. Every response of a handler carries \<^verbatim>\<open>Access-Control-Allow-Origin: *\<close>, whatever the
  request and the world: the answer to a preflight, the success with status 200, the
  rejected input with status 400 and every error with status 500, the one made by the
  \<^verbatim>\<open>catch\<close> included. No other status occurs.
\<close>

theorem every_response_allows_any_origin:
  "map_of (headers (fst (handler_plain w req))) ''Access-Control-Allow-Origin'' = Some ''*'' \<and>
   map_of (headers (fst (handler_grounded w req))) ''Access-Control-Allow-Origin'' = Some ''*'' \<and>
   map_of (headers (fst (handler_search w req))) ''Access-Control-Allow-Origin'' = Some ''*'' \<and>
   status (fst (handler_plain w req)) \<in> {200, 400, 500} \<and>
   status (fst (handler_grounded w req)) \<in> {200, 400, 500} \<and>
   status (fst (handler_search w req)) \<in> {200, 400, 500}"
proof (cases "req_method req = ''OPTIONS''")
  case True
  then show ?thesis
    using handler_preflight[OF True]
    by (simp add: corsHeaders_def corsHeaders_search_def)
next
  case False
  have st: "\<And>hs (resp :: ('z verdict_fields_scheme) response).
      wellFormed hs resp \<Longrightarrow> status resp \<in> {200, 400, 500}"
    by (auto simp: wellFormed_def split: option.splits body.splits)
  have hd: "\<And>hs (resp :: ('z verdict_fields_scheme) response).
      wellFormed hs resp \<Longrightarrow> headers resp = hs"
    by (simp add: wellFormed_def)
  have a: "map_of jsonHeaders ''Access-Control-Allow-Origin'' = Some ''*''"
    by (simp add: jsonHeaders_def corsHeaders_def)
  have b: "map_of jsonHeaders_search ''Access-Control-Allow-Origin'' = Some ''*''"
    by (simp add: jsonHeaders_search_def corsHeaders_search_def)
  note p = handler_plain_wellFormed[OF False, of w]
  note g = handler_grounded_wellFormed[OF False, of w]
  note s = handler_search_wellFormed[OF False, of w]
  show ?thesis
    using st[OF p] st[OF g] st[OF s] a b
    by (simp only: hd[OF p] hd[OF g] hd[OF s])
qed

subsection \<open>Strings\<close>

lemma startsWith_prefix: "startsWith s t \<longleftrightarrow> prefix t s"
  by (induction s t rule: startsWith.induct) auto

lemma includesStr_sublist: "includesStr s t \<longleftrightarrow> sublist t s"
proof (induction s)
  case Nil
  then show ?case by simp
next
  case (Cons c s)
  then show ?case by (simp add: startsWith_prefix sublist_Cons_right)
qed

text \<open>
  Dropping leading characters that a text does not contain neither adds nor removes an
  occurrence of the text.
\<close>

lemma sublist_dropWhile_iff:
  assumes "t \<noteq> []" and "\<forall>c \<in> set t. \<not> P c"
  shows "sublist t (dropWhile P s) \<longleftrightarrow> sublist t s"
proof
  assume "sublist t (dropWhile P s)"
  then obtain pre post where "dropWhile P s = pre @ t @ post"
    by (auto simp: sublist_def)
  then have "s = (takeWhile P s @ pre) @ t @ post"
    by (metis append_assoc takeWhile_dropWhile_id)
  then show "sublist t s" unfolding sublist_def by blast
next
  assume "sublist t s"
  then obtain pre post where s: "s = pre @ t @ post"
    by (auto simp: sublist_def)
  obtain x t' where t: "t = x # t'" using assms(1) by (cases t) auto
  then have nx: "\<not> P x" using assms(2) by simp
  show "sublist t (dropWhile P s)"
    unfolding s
  proof (induction pre)
    case Nil
    then show ?case using t nx by simp
  next
    case (Cons c pre)
    show ?case
    proof (cases "P c")
      case True
      then show ?thesis using Cons.IH by simp
    next
      case False
      then have "dropWhile P ((c # pre) @ t @ post) = (c # pre) @ t @ post" by simp
      then show ?thesis by (simp only: sublist_appendI)
    qed
  qed
qed

lemma sublist_trim:
  assumes "t \<noteq> []" and "\<forall>c \<in> set t. \<not> is_ws c"
  shows "sublist t (trim s) \<longleftrightarrow> sublist t s"
proof -
  have r: "rev t \<noteq> []" "\<forall>c \<in> set (rev t). \<not> is_ws c" using assms by simp_all
  have "sublist t (trim s) \<longleftrightarrow> sublist (rev t) (dropWhile is_ws (rev (dropWhile is_ws s)))"
    by (simp add: trim_def sublist_rev_right)
  also have "\<dots> \<longleftrightarrow> sublist (rev t) (rev (dropWhile is_ws s))"
    by (rule sublist_dropWhile_iff[OF r])
  also have "\<dots> \<longleftrightarrow> sublist t (dropWhile is_ws s)" by simp
  also have "\<dots> \<longleftrightarrow> sublist t s" by (rule sublist_dropWhile_iff[OF assms])
  finally show ?thesis .
qed

lemma sentinel_no_space: "\<forall>c \<in> set ''LIVE_SEARCH_REQUIRED''. \<not> is_ws c"
  by (simp add: is_ws_def)

lemma trim_Nil_iff: "trim s = [] \<longleftrightarrow> (\<forall>c \<in> set s. is_ws c)"
proof -
  have "trim s = [] \<longleftrightarrow> (\<forall>c \<in> set (dropWhile is_ws s). is_ws c)"
    by (simp add: trim_def)
  also have "\<dots> \<longleftrightarrow> dropWhile is_ws s = []"
  proof
    assume a: "\<forall>c \<in> set (dropWhile is_ws s). is_ws c"
    show "dropWhile is_ws s = []"
    proof (rule ccontr)
      assume n: "dropWhile is_ws s \<noteq> []"
      then have "\<not> is_ws (hd (dropWhile is_ws s))" by (rule hd_dropWhile)
      moreover have "hd (dropWhile is_ws s) \<in> set (dropWhile is_ws s)" using n by simp
      ultimately show False using a by blast
    qed
  next
    assume "dropWhile is_ws s = []"
    then have "set (dropWhile is_ws s) = {}" by (simp only: list.set)
    then show "\<forall>c \<in> set (dropWhile is_ws s). is_ws c" by (metis empty_iff)
  qed
  also have "\<dots> \<longleftrightarrow> (\<forall>c \<in> set s. is_ws c)" by simp
  finally show ?thesis .
qed

lemma rejected_iff:
  "rejected t \<longleftrightarrow> t = Undefined \<or> \<not> is_string t \<or> trim (the_string t) = []"
  by (cases t rule: truthy.cases) (auto simp: rejected_def trim_def)

text \<open>
  C5. For every text the classifier answers, the claim is classified as requiring live
  evidence if and only if the text contains \<^verbatim>\<open>LIVE_SEARCH_REQUIRED\<close>; any other text gives
  the static path. This holds in the plain pipeline, which trims the text first, and in
  the grounded pipeline, which does not.
\<close>

theorem live_search_iff_sentinel:
  "needsLiveSearch (Val (JStr s)) =
     Inr (\<exists>pre post. s = pre @ ''LIVE_SEARCH_REQUIRED'' @ post) \<and>
   needsLiveSearch_grounded (Val (JStr s)) =
     Inr (\<exists>pre post. s = pre @ ''LIVE_SEARCH_REQUIRED'' @ post)"
proof -
  have "sublist ''LIVE_SEARCH_REQUIRED'' (trim s) \<longleftrightarrow> sublist ''LIVE_SEARCH_REQUIRED'' s"
    by (rule sublist_trim[OF _ sentinel_no_space]) simp
  then show ?thesis
    by (simp only: needsLiveSearch.simps needsLiveSearch_grounded.simps includesStr_sublist
        sublist_def)
qed

subsection \<open>Runs of the handlers\<close>

lemma getProp_Val: "b \<noteq> JNull \<Longrightarrow> getProp (Val b) name = Inr (optProp (Val b) name)"
  by (cases b) (simp_all add: optProp_def)

lemma catch_all_Inr: "m n = (Inr x, n') \<Longrightarrow> catch_all m h n = (x, n')"
  by (simp add: catch_all_def)

lemma bind_Inr: "m n = (Inr x, n') \<Longrightarrow> bind m f n = f x n'"
  by (simp add: bind_def)

lemma bind_lift_Inr: "m = Inr x \<Longrightarrow> bind (lift m) f n = f x n"
  by (simp add: bind_def lift_def)

lemma bind_lift_fun: "bind (lift (Inr x)) f = f x"
  by (rule ext) (simp add: bind_def lift_def)

text \<open>A rejected text is answered at once, before anything is fetched.\<close>

lemma tryBody_rejected:
  assumes "json_body req = Some b" and "b \<noteq> JNull" and "rejected (optProp (Val b) ''text'')"
  shows "tryBody_plain w req 0 =
           (Inr (errorResponse 400 (Text ''Please provide text to analyze'')), 0)"
    and "tryBody_grounded w req 0 =
           (Inr (errorResponse 400 (Text ''Please provide text to analyze'')), 0)"
    and "tryBody_search w req 0 =
           (Inr (errorResponse_search 400 (Text ''Please provide text to analyze'')), 0)"
  using assms
  by (simp_all add: tryBody_plain_def tryBody_grounded_def tryBody_search_def getProp_Val
      bind_lift_Inr unit_io_def)

text \<open>An accepted request enters the pipeline.\<close>

lemma tryBody_accepted:
  assumes "accepted w req"
  shows "tryBody_plain w req = pipeline_plain w"
    and "tryBody_grounded w req = pipeline_grounded w"
  using assms
  by (auto simp: accepted_def tryBody_plain_def tryBody_grounded_def bind_def lift_def
      split: option.splits sum.splits)

lemma handler_accepted:
  assumes "accepted w req"
  shows "handler_plain w req =
           catch_all (pipeline_plain w) (\<lambda>error. errorResponse 500 (message error)) 0"
    and "handler_grounded w req =
           catch_all (pipeline_grounded w) (\<lambda>error. errorResponse 500 (message error)) 0"
  using assms tryBody_accepted[OF assms]
  by (simp_all add: handler_plain_def handler_grounded_def accepted_def)

text \<open>The plain pipeline once the model has answered the final prompt.\<close>

lemma pipeline_plain_run:
  assumes "callGemini w 0 = (Inr (GContent decision), n1)"
    and "needsLiveSearch decision = Inr needs"
    and "liveEvidence w needs n1 = (Inr (snips, srcs, mode), n2)"
    and "callGemini w n2 = (Inr (GContent content), n3)"
  shows "pipeline_plain w 0 =
           (case sanitize (parseAnalysis w content) of
              Inl e \<Rightarrow> (Inl e, n3)
            | Inr r \<Rightarrow> (Inr (okResponse (withSources r mode srcs)), n3))"
  using assms
  by (simp add: pipeline_plain_def bind_Inr bind_lift_Inr bind_def lift_def unit_io_def
      split: sum.splits)

lemma pipeline_plain_error:
  assumes "callGemini w 0 = (Inr (GContent decision), n1)"
    and "needsLiveSearch decision = Inr needs"
    and "liveEvidence w needs n1 = (Inr (snips, srcs, mode), n2)"
    and "callGemini w n2 = (Inr (GError m), n3)"
  shows "pipeline_plain w 0 = (Inr (errorResponse 500 (Text m)), n3)"
  using assms
  by (simp add: pipeline_plain_def bind_Inr bind_lift_Inr unit_io_def)

lemma pipeline_grounded_run:
  assumes "callGemini_grounded w 0 = (Inr (Grounded decision ignored), n1)"
    and "needsLiveSearch_grounded decision = Inr needs"
    and "callGemini_grounded w n1 = (Inr (Grounded content found), n2)"
  shows "pipeline_grounded w 0 =
           (case sanitize (parseAnalysis w content) of
              Inl e \<Rightarrow> (Inl e, n2)
            | Inr r \<Rightarrow>
                (Inr (okResponse
                   (withSources r (if length found > 0 then ''grounded'' else ''static'')
                      (if length found > 0 then found else []))), n2))"
  using assms
  by (simp add: pipeline_grounded_def bind_Inr bind_lift_Inr bind_def lift_def unit_io_def
      split: sum.splits)

lemma sanitize_candidate:
  "sanitize (candidate x) =
     Inr \<lparr>verdict = ''uncertain'', confidence = Fin 50, explanation = x, redFlags = []\<rparr>"
proof -
  have "\<lfloor>(101 / 2 :: rat)\<rfloor> = 50" by linarith
  then show ?thesis by (simp add: sanitize_def candidate_def bindE_def)
qed


text \<open>
  C7. A request whose body is the JSON text \<^verbatim>\<open>null\<close> has no text, and the claim asks for
  status 400 with the body \<^verbatim>\<open>{ error: "Please provide text to analyze" }\<close>. The three
  handlers answer it with status 500: \<^verbatim>\<open>const { text } = await req.json()\<close> reads a property
  of \<^verbatim>\<open>null\<close> and throws a TypeError before the check of the text is reached, and the
  \<^verbatim>\<open>catch\<close> around the handler's body makes the engine's message the error of the response.
  Nothing has been fetched by then.
\<close>

theorem null_body_gets_500:
  "getProp (Val JNull) ''text'' = Inl TypeError \<and>
   handler_plain w null_request =
     (\<lparr>status = 500, headers = jsonHeaders,
       body = Some (ErrorBody (EngineText TypeError))\<rparr>, 0) \<and>
   handler_grounded w null_request =
     (\<lparr>status = 500, headers = jsonHeaders,
       body = Some (ErrorBody (EngineText TypeError))\<rparr>, 0) \<and>
   handler_search w null_request =
     (\<lparr>status = 500, headers = jsonHeaders_search,
       body = Some (ErrorBody (EngineText TypeError))\<rparr>, 0)"
  by (simp add: null_request_def handler_plain_def handler_grounded_def handler_search_def
      tryBody_plain_def tryBody_grounded_def tryBody_search_def catch_all_def bind_def lift_def
      errorResponse_def errorResponse_search_def new_Response_def)

text \<open>
  On a body that is JSON and not \<^verbatim>\<open>null\<close> the check does what is asked of it. When the
  text is missing, not a string or blank after trimming, each of the three handlers
  answers with status 400 and the body \<^verbatim>\<open>{ error: "Please provide text to analyze" }\<close>, and
  nothing has been fetched by then: no stage of the pipeline ran. The request is one whose
  body is read (its method is not OPTIONS).
\<close>

theorem blank_text_gets_400:
  assumes "req_method req \<noteq> ''OPTIONS''"
    and "json_body req = Some b" and "b \<noteq> JNull"
    and "optProp (Val b) ''text'' = Undefined \<or> \<not> is_string (optProp (Val b) ''text'') \<or>
         trim (the_string (optProp (Val b) ''text'')) = []"
  shows "handler_plain w req =
           (\<lparr>status = 400, headers = jsonHeaders,
             body = Some (ErrorBody (Text ''Please provide text to analyze''))\<rparr>, 0) \<and>
         handler_grounded w req =
           (\<lparr>status = 400, headers = jsonHeaders,
             body = Some (ErrorBody (Text ''Please provide text to analyze''))\<rparr>, 0) \<and>
         handler_search w req =
           (\<lparr>status = 400, headers = jsonHeaders_search,
             body = Some (ErrorBody (Text ''Please provide text to analyze''))\<rparr>, 0)"
proof -
  have "rejected (optProp (Val b) ''text'')"
    using assms(4) by (simp only: rejected_iff)
  note run = tryBody_rejected[OF assms(2) assms(3) this, of w]
  show ?thesis
    using assms(1) run
    by (simp add: handler_plain_def handler_grounded_def handler_search_def catch_all_def
        errorResponse_def errorResponse_search_def new_Response_def)
qed

theorem blank_text_gets_400_witness:
  "req_method blank_request \<noteq> ''OPTIONS'' \<and>
   json_body blank_request = Some (JObj [(''text'', JStr ''   '')]) \<and>
   JObj [(''text'', JStr ''   '')] \<noteq> JNull \<and>
   trim (the_string (optProp (Val (JObj [(''text'', JStr ''   '')])) ''text'')) = [] \<and>
   handler_plain example_world blank_request =
     (\<lparr>status = 400, headers = jsonHeaders,
       body = Some (ErrorBody (Text ''Please provide text to analyze''))\<rparr>, 0)"
proof -
  have t: "trim (the_string (optProp (Val (JObj [(''text'', JStr ''   '')])) ''text'')) = []"
    by (simp add: optProp_def trim_def is_ws_def)
  have m: "req_method blank_request \<noteq> ''OPTIONS''"
    and j: "json_body blank_request = Some (JObj [(''text'', JStr ''   '')])"
    by (simp_all add: blank_request_def)
  show ?thesis
    using blank_text_gets_400[OF m j _ disjI2[OF disjI2[OF t]], of example_world] t m j
    by simp
qed


text \<open>The grounded pipeline through \<^verbatim>\<open>fallbackAnalysis\<close>, once the model has answered there.\<close>

lemma pipeline_grounded_fallback_run:
  assumes "callGemini_grounded w 0 = (Inr (Grounded decision ignored), n1)"
    and "needsLiveSearch_grounded decision = Inr needs"
    and "callGemini_grounded w n1 = (Inr (GroundedError m), n2)"
    and "liveEvidence_grounded w needs n2 = (Inr (snips, srcs, mode), n3)"
    and "callGemini_grounded w n3 = (Inr (Grounded content found), n4)"
  shows "pipeline_grounded w 0 =
           (case sanitize (parseAnalysis_fallback w content) of
              Inl e \<Rightarrow> (Inl e, n4)
            | Inr r \<Rightarrow> (Inr (okResponse (withSources r mode (map asUrl srcs))), n4))"
  using assms
  by (simp add: pipeline_grounded_def fallbackAnalysis_def bind_Inr bind_lift_Inr bind_def
      lift_def unit_io_def split: sum.splits)

text \<open>An accepted request of the tool-calling handler goes on to the model with its text.\<close>

lemma handler_search_accepted:
  assumes "accepted w req" and "json_body req = Some b"
  shows "handler_search w req =
           catch_all
             (bind (callGeminiWithSearch w (trim (the_string (optProp (Val b) ''text''))))
                (\<lambda>result.
                   case result of
                     SearchedError m \<Rightarrow> unit_io (errorResponse_search 500 (Text m))
                   | Searched content topSources \<Rightarrow>
                       bind (lift (sanitize (parseAnalysis_search w content))) (\<lambda>r.
                         unit_io (new_Response (Some (ResultBody (withSourcesOnly r topSources)))
                                    None jsonHeaders_search))))
             (\<lambda>error. errorResponse_search 500 (message error)) 0"
proof -
  have "b \<noteq> JNull" using assms by (auto simp: accepted_def)
  then have g: "getProp (Val b) ''text'' = Inr (optProp (Val b) ''text'')"
    by (rule getProp_Val)
  then have "\<not> rejected (optProp (Val b) ''text'')"
    using assms by (simp add: accepted_def)
  then show ?thesis
    using assms g
    by (simp add: handler_search_def tryBody_search_def accepted_def bind_lift_fun)
qed

text \<open>
  C4, as the code has it. When the answer to the final prompt, with its optional code
  fence stripped, does not parse as JSON (or is no text at all), the request does not
  fail: the candidate becomes verdict \<^verbatim>\<open>uncertain\<close>, confidence 50, no red flags and an
  explanation that is fixed in each place where an answer is parsed, and the response has
  status 200 with these fields and the sources gathered before. The explanation is
  \<^verbatim>\<open>Unable to fully analyze this content. Please try again.\<close> in the plain pipeline and on
  the main path of the grounded one, \<^verbatim>\<open>Parse error.\<close> in \<^verbatim>\<open>fallbackAnalysis\<close>, and
  \<^verbatim>\<open>Unable to fully parse analysis. Please try again.\<close> in the tool-calling handler, which
  strips every code fence of the answer.
\<close>

theorem unparsable_answer_gets_default:
  "(JSON_parse w (trim (case fenced s of None \<Rightarrow> s | Some g \<Rightarrow> g)) = None \<longrightarrow>
      extractJson w (Val (JStr s)) = Inl SyntaxError) \<and>
   (JSON_parse w (trim (removeFences (removeOpeners s))) = None \<longrightarrow>
      cleanedJson w (Val (JStr s)) = Inl SyntaxError) \<and>
   (extractJson w content = Inl e \<longrightarrow>
      parseAnalysis w content =
        JObj [(''verdict'', JStr ''uncertain''), (''confidence'', JNum (Fin 50)),
              (''explanation'', JStr ''Unable to fully analyze this content. Please try again.''),
              (''redFlags'', JArr [])] \<and>
      parseAnalysis_fallback w content =
        JObj [(''verdict'', JStr ''uncertain''), (''confidence'', JNum (Fin 50)),
              (''explanation'', JStr ''Parse error.''), (''redFlags'', JArr [])]) \<and>
   (cleanedJson w content = Inl e \<longrightarrow>
      parseAnalysis_search w content =
        JObj [(''verdict'', JStr ''uncertain''), (''confidence'', JNum (Fin 50)),
              (''explanation'', JStr ''Unable to fully parse analysis. Please try again.''),
              (''redFlags'', JArr [])]) \<and>
   (accepted w req \<and>
    callGemini w 0 = (Inr (GContent decision), n1) \<and>
    needsLiveSearch decision = Inr needs \<and>
    liveEvidence w needs n1 = (Inr (snips, srcs, mode), n2) \<and>
    callGemini w n2 = (Inr (GContent content), n3) \<and>
    extractJson w content = Inl e \<longrightarrow>
      handler_plain w req =
        (\<lparr>status = 200, headers = jsonHeaders,
          body = Some (ResultBody
            \<lparr>verdict = ''uncertain'', confidence = Fin 50,
             explanation = ''Unable to fully analyze this content. Please try again.'',
             redFlags = [], sources = srcs, sourceMode = mode\<rparr>)\<rparr>, n3)) \<and>
   (accepted w req \<and>
    callGemini_grounded w 0 = (Inr (Grounded decision' ignored), k1) \<and>
    needsLiveSearch_grounded decision' = Inr needs' \<and>
    callGemini_grounded w k1 = (Inr (Grounded content found), k2) \<and>
    extractJson w content = Inl e \<longrightarrow>
      handler_grounded w req =
        (\<lparr>status = 200, headers = jsonHeaders,
          body = Some (ResultBody
            \<lparr>verdict = ''uncertain'', confidence = Fin 50,
             explanation = ''Unable to fully analyze this content. Please try again.'',
             redFlags = [], sources = found,
             sourceMode = (if found = [] then ''static'' else ''grounded'')\<rparr>)\<rparr>, k2)) \<and>
   (accepted w req \<and>
    callGemini_grounded w 0 = (Inr (Grounded decision' ignored), k1) \<and>
    needsLiveSearch_grounded decision' = Inr needs' \<and>
    callGemini_grounded w k1 = (Inr (GroundedError failure), k3) \<and>
    liveEvidence_grounded w needs' k3 = (Inr (snips', srcs', mode'), k4) \<and>
    callGemini_grounded w k4 = (Inr (Grounded content found'), k5) \<and>
    extractJson w content = Inl e \<longrightarrow>
      handler_grounded w req =
        (\<lparr>status = 200, headers = jsonHeaders,
          body = Some (ResultBody
            \<lparr>verdict = ''uncertain'', confidence = Fin 50, explanation = ''Parse error.'',
             redFlags = [], sources = map asUrl srcs', sourceMode = mode'\<rparr>)\<rparr>, k5)) \<and>
   (accepted w req \<and> json_body req = Some b \<and>
    callGeminiWithSearch w (trim (the_string (optProp (Val b) ''text''))) 0 =
      (Inr (Searched content topSources), j) \<and>
    cleanedJson w content = Inl e \<longrightarrow>
      handler_search w req =
        (\<lparr>status = 200, headers = jsonHeaders_search,
          body = Some (ResultBody
            \<lparr>verdict = ''uncertain'', confidence = Fin 50,
             explanation = ''Unable to fully parse analysis. Please try again.'',
             redFlags = [], sources = topSources\<rparr>)\<rparr>, j))"
proof -
  have 1: "JSON_parse w (trim (case fenced s of None \<Rightarrow> s | Some g \<Rightarrow> g)) = None \<longrightarrow>
      extractJson w (Val (JStr s)) = Inl SyntaxError"
    by simp
  have 2: "JSON_parse w (trim (removeFences (removeOpeners s))) = None \<longrightarrow>
      cleanedJson w (Val (JStr s)) = Inl SyntaxError"
    by simp
  have 3: "extractJson w content = Inl e \<longrightarrow>
      parseAnalysis w content =
        JObj [(''verdict'', JStr ''uncertain''), (''confidence'', JNum (Fin 50)),
              (''explanation'', JStr ''Unable to fully analyze this content. Please try again.''),
              (''redFlags'', JArr [])] \<and>
      parseAnalysis_fallback w content =
        JObj [(''verdict'', JStr ''uncertain''), (''confidence'', JNum (Fin 50)),
              (''explanation'', JStr ''Parse error.''), (''redFlags'', JArr [])]"
    by (simp add: parseAnalysis_def parseAnalysis_fallback_def candidate_def)
  have 4: "cleanedJson w content = Inl e \<longrightarrow>
      parseAnalysis_search w content =
        JObj [(''verdict'', JStr ''uncertain''), (''confidence'', JNum (Fin 50)),
              (''explanation'', JStr ''Unable to fully parse analysis. Please try again.''),
              (''redFlags'', JArr [])]"
    by (simp add: parseAnalysis_search_def candidate_def)
  have 5: "handler_plain w req =
        (\<lparr>status = 200, headers = jsonHeaders,
          body = Some (ResultBody
            \<lparr>verdict = ''uncertain'', confidence = Fin 50,
             explanation = ''Unable to fully analyze this content. Please try again.'',
             redFlags = [], sources = srcs, sourceMode = mode\<rparr>)\<rparr>, n3)"
    if h: "accepted w req \<and>
      callGemini w 0 = (Inr (GContent decision), n1) \<and>
      needsLiveSearch decision = Inr needs \<and>
      liveEvidence w needs n1 = (Inr (snips, srcs, mode), n2) \<and>
      callGemini w n2 = (Inr (GContent content), n3) \<and>
      extractJson w content = Inl e"
  proof -
    have p: "parseAnalysis w content =
        candidate ''Unable to fully analyze this content. Please try again.''"
      using h by (simp add: parseAnalysis_def)
    have "pipeline_plain w 0 =
        (Inr (okResponse (withSources
           \<lparr>verdict = ''uncertain'', confidence = Fin 50,
            explanation = ''Unable to fully analyze this content. Please try again.'',
            redFlags = []\<rparr> mode srcs)), n3)"
      using h pipeline_plain_run[of w decision n1 needs snips srcs mode n2 content n3]
      by (simp add: p sanitize_candidate)
    then show ?thesis
      using h by (simp add: handler_accepted(1) catch_all_def okResponse_def withSources_def
          new_Response_def)
  qed
  have 6: "handler_grounded w req =
        (\<lparr>status = 200, headers = jsonHeaders,
          body = Some (ResultBody
            \<lparr>verdict = ''uncertain'', confidence = Fin 50,
             explanation = ''Unable to fully analyze this content. Please try again.'',
             redFlags = [], sources = found,
             sourceMode = (if found = [] then ''static'' else ''grounded'')\<rparr>)\<rparr>, k2)"
    if h: "accepted w req \<and>
      callGemini_grounded w 0 = (Inr (Grounded decision' ignored), k1) \<and>
      needsLiveSearch_grounded decision' = Inr needs' \<and>
      callGemini_grounded w k1 = (Inr (Grounded content found), k2) \<and>
      extractJson w content = Inl e"
  proof -
    have p: "parseAnalysis w content =
        candidate ''Unable to fully analyze this content. Please try again.''"
      using h by (simp add: parseAnalysis_def)
    have "pipeline_grounded w 0 =
        (Inr (okResponse (withSources
           \<lparr>verdict = ''uncertain'', confidence = Fin 50,
            explanation = ''Unable to fully analyze this content. Please try again.'',
            redFlags = []\<rparr> (if length found > 0 then ''grounded'' else ''static'')
              (if length found > 0 then found else []))), k2)"
      using h pipeline_grounded_run[of w decision' ignored k1 needs' content found k2]
      by (simp add: p sanitize_candidate)
    then show ?thesis
      using h by (simp add: handler_accepted(2) catch_all_def okResponse_def withSources_def
          new_Response_def)
  qed
  have 7: "handler_grounded w req =
        (\<lparr>status = 200, headers = jsonHeaders,
          body = Some (ResultBody
            \<lparr>verdict = ''uncertain'', confidence = Fin 50, explanation = ''Parse error.'',
             redFlags = [], sources = map asUrl srcs', sourceMode = mode'\<rparr>)\<rparr>, k5)"
    if h: "accepted w req \<and>
      callGemini_grounded w 0 = (Inr (Grounded decision' ignored), k1) \<and>
      needsLiveSearch_grounded decision' = Inr needs' \<and>
      callGemini_grounded w k1 = (Inr (GroundedError failure), k3) \<and>
      liveEvidence_grounded w needs' k3 = (Inr (snips', srcs', mode'), k4) \<and>
      callGemini_grounded w k4 = (Inr (Grounded content found'), k5) \<and>
      extractJson w content = Inl e"
  proof -
    have p: "parseAnalysis_fallback w content = candidate ''Parse error.''"
      using h by (simp add: parseAnalysis_fallback_def)
    have "pipeline_grounded w 0 =
        (Inr (okResponse (withSources
           \<lparr>verdict = ''uncertain'', confidence = Fin 50, explanation = ''Parse error.'',
            redFlags = []\<rparr> mode' (map asUrl srcs'))), k5)"
      using h pipeline_grounded_fallback_run[of w decision' ignored k1 needs' failure k3
          snips' srcs' mode' k4 content found' k5]
      by (simp add: p sanitize_candidate)
    then show ?thesis
      using h by (simp add: handler_accepted(2) catch_all_def okResponse_def withSources_def
          new_Response_def)
  qed
  have 8: "handler_search w req =
        (\<lparr>status = 200, headers = jsonHeaders_search,
          body = Some (ResultBody
            \<lparr>verdict = ''uncertain'', confidence = Fin 50,
             explanation = ''Unable to fully parse analysis. Please try again.'',
             redFlags = [], sources = topSources\<rparr>)\<rparr>, j)"
    if h: "accepted w req \<and> json_body req = Some b \<and>
      callGeminiWithSearch w (trim (the_string (optProp (Val b) ''text''))) 0 =
        (Inr (Searched content topSources), j) \<and>
      cleanedJson w content = Inl e"
  proof -
    have p: "parseAnalysis_search w content =
        candidate ''Unable to fully parse analysis. Please try again.''"
      using h by (simp add: parseAnalysis_search_def)
    have a: "accepted w req" and b: "json_body req = Some b" using h by simp_all
    show ?thesis
      using h
      by (simp add: handler_search_accepted[OF a b] catch_all_def bind_Inr bind_lift_Inr p
          sanitize_candidate unit_io_def withSourcesOnly_def new_Response_def)
  qed
  show ?thesis using 1 2 3 4 5 6 7 8 by blast
qed

theorem unparsable_answer_gets_default_witness:
  "accepted prose_world example_request \<and>
   accepted fallback_world example_request \<and>
   callGemini prose_world 0 = (Inr (GContent (Val (JStr ''I cannot verify this.''))), 1) \<and>
   needsLiveSearch (Val (JStr ''I cannot verify this.'')) = Inr False \<and>
   liveEvidence prose_world False 1 = (Inr ([], [], ''static''), 1) \<and>
   callGemini prose_world 1 = (Inr (GContent (Val (JStr ''I cannot verify this.''))), 2) \<and>
   callGemini_grounded prose_world 0 =
     (Inr (Grounded (Val (JStr ''I cannot verify this.'')) []), 1) \<and>
   needsLiveSearch_grounded (Val (JStr ''I cannot verify this.'')) = Inr False \<and>
   callGemini_grounded prose_world 1 =
     (Inr (Grounded (Val (JStr ''I cannot verify this.'')) []), 2) \<and>
   callGemini_grounded fallback_world 0 =
     (Inr (Grounded (Val (JStr ''I cannot verify this.'')) []), 1) \<and>
   callGemini_grounded fallback_world 1 =
     (Inr (GroundedError ''Rate limit exceeded. Please try again later.''), 2) \<and>
   liveEvidence_grounded fallback_world False 2 = (Inr ([], [], ''static''), 2) \<and>
   callGemini_grounded fallback_world 2 =
     (Inr (Grounded (Val (JStr ''I cannot verify this.'')) []), 3) \<and>
   json_body example_request = Some (JObj [(''text'', JStr ''The moon landed on Mars in 2025.'')]) \<and>
   callGeminiWithSearch prose_world ''The moon landed on Mars in 2025.'' 0 =
     (Inr (Searched (Val (JStr ''I cannot verify this.'')) []), 3) \<and>
   extractJson prose_world (Val (JStr ''I cannot verify this.'')) = Inl SyntaxError \<and>
   extractJson fallback_world (Val (JStr ''I cannot verify this.'')) = Inl SyntaxError \<and>
   cleanedJson prose_world (Val (JStr ''I cannot verify this.'')) = Inl SyntaxError \<and>
   handler_plain prose_world example_request =
     (\<lparr>status = 200, headers = jsonHeaders,
       body = Some (ResultBody
         \<lparr>verdict = ''uncertain'', confidence = Fin 50,
          explanation = ''Unable to fully analyze this content. Please try again.'',
          redFlags = [], sources = [], sourceMode = ''static''\<rparr>)\<rparr>, 2) \<and>
   handler_grounded prose_world example_request =
     (\<lparr>status = 200, headers = jsonHeaders,
       body = Some (ResultBody
         \<lparr>verdict = ''uncertain'', confidence = Fin 50,
          explanation = ''Unable to fully analyze this content. Please try again.'',
          redFlags = [], sources = [], sourceMode = ''static''\<rparr>)\<rparr>, 2) \<and>
   handler_grounded fallback_world example_request =
     (\<lparr>status = 200, headers = jsonHeaders,
       body = Some (ResultBody
         \<lparr>verdict = ''uncertain'', confidence = Fin 50, explanation = ''Parse error.'',
          redFlags = [], sources = [], sourceMode = ''static''\<rparr>)\<rparr>, 3) \<and>
   handler_search prose_world example_request =
     (\<lparr>status = 200, headers = jsonHeaders_search,
       body = Some (ResultBody
         \<lparr>verdict = ''uncertain'', confidence = Fin 50,
          explanation = ''Unable to fully parse analysis. Please try again.'',
          redFlags = [], sources = []\<rparr>)\<rparr>, 3)"
proof -
  let ?prose = "Val (JStr ''I cannot verify this.'')"
  let ?body = "JObj [(''text'', JStr ''The moon landed on Mars in 2025.'')]"
  have a: "accepted prose_world example_request"
    by (simp add: accepted_def examples rejected_def trim_def is_ws_def configured_def)
  have af: "accepted fallback_world example_request"
    by (simp add: accepted_def examples fallback_world_def rejected_def trim_def is_ws_def
        configured_def)
  have c0: "callGemini prose_world 0 = (Inr (GContent ?prose), 1)"
    by (simp add: run_plain examples)
  have c1: "callGemini prose_world 1 = (Inr (GContent ?prose), 2)"
    by (simp add: run_plain examples)
  have g0: "callGemini_grounded prose_world 0 = (Inr (Grounded ?prose []), 1)"
    by (simp add: run_plain run_grounded examples)
  have g1: "callGemini_grounded prose_world 1 = (Inr (Grounded ?prose []), 2)"
    by (simp add: run_plain run_grounded examples)
  have f0: "callGemini_grounded fallback_world 0 = (Inr (Grounded ?prose []), 1)"
    by (simp add: run_plain run_grounded examples fallback_world_def)
  have f1: "callGemini_grounded fallback_world 1 =
      (Inr (GroundedError ''Rate limit exceeded. Please try again later.''), 2)"
    by (simp add: run_plain run_grounded examples fallback_world_def)
  have f2: "callGemini_grounded fallback_world 2 = (Inr (Grounded ?prose []), 3)"
    by (simp add: run_plain run_grounded examples fallback_world_def)
  have fl: "liveEvidence_grounded fallback_world False 2 = (Inr ([], [], ''static''), 2)"
    by (simp add: liveEvidence_grounded_def unit_io_def)
  have n: "needsLiveSearch ?prose = Inr False"
    by (simp add: trim_def is_ws_def)
  have ng: "needsLiveSearch_grounded ?prose = Inr False"
    by simp
  have l: "liveEvidence prose_world False 1 = (Inr ([], [], ''static''), 1)"
    by (simp add: liveEvidence_def unit_io_def)
  have x: "extractJson prose_world ?prose = Inl SyntaxError"
    by (simp add: examples fenced_def fence_def trim_def is_ws_def)
  have xf: "extractJson fallback_world ?prose = Inl SyntaxError"
    by (simp add: examples fallback_world_def fenced_def fence_def trim_def is_ws_def)
  have xs: "cleanedJson prose_world ?prose = Inl SyntaxError"
    by (simp add: examples trim_def is_ws_def)
  have jb: "json_body example_request = Some ?body"
    by (simp add: example_request_def)
  have t: "trim (the_string (optProp (Val ?body) ''text'')) = ''The moon landed on Mars in 2025.''"
    by (simp add: optProp_def trim_def is_ws_def)
  have s: "callGeminiWithSearch prose_world ''The moon landed on Mars in 2025.'' 0 =
      (Inr (Searched ?prose []), 3)"
    by (simp add: run_plain run_grounded run_search examples)
  note main = unparsable_answer_gets_default[where w = prose_world
      and s = "''I cannot verify this.''" and content = ?prose and e = SyntaxError
      and req = example_request and decision = ?prose and ?n1.0 = 1 and needs = False
      and snips = "[]" and srcs = "[]" and mode = "''static''" and ?n2.0 = 1 and ?n3.0 = 2
      and decision' = ?prose and ignored = "[]" and ?k1.0 = 1 and needs' = False
      and found = "[]" and ?k2.0 = 2 and b = ?body and topSources = "[]" and j = 3]
  note fallback = unparsable_answer_gets_default[where w = fallback_world
      and content = ?prose and e = SyntaxError and req = example_request
      and decision' = ?prose and ignored = "[]" and ?k1.0 = 1 and needs' = False
      and failure = "''Rate limit exceeded. Please try again later.''" and ?k3.0 = 2
      and snips' = "[]" and srcs' = "[]" and mode' = "''static''" and ?k4.0 = 2
      and found' = "[]" and ?k5.0 = 3]
  have p: "handler_plain prose_world example_request =
     (\<lparr>status = 200, headers = jsonHeaders,
       body = Some (ResultBody
         \<lparr>verdict = ''uncertain'', confidence = Fin 50,
          explanation = ''Unable to fully analyze this content. Please try again.'',
          redFlags = [], sources = [], sourceMode = ''static''\<rparr>)\<rparr>, 2)"
    using main a c0 n l c1 x by simp
  have g: "handler_grounded prose_world example_request =
     (\<lparr>status = 200, headers = jsonHeaders,
       body = Some (ResultBody
         \<lparr>verdict = ''uncertain'', confidence = Fin 50,
          explanation = ''Unable to fully analyze this content. Please try again.'',
          redFlags = [], sources = [], sourceMode = ''static''\<rparr>)\<rparr>, 2)"
    using main a g0 ng g1 x by simp
  have f: "handler_grounded fallback_world example_request =
     (\<lparr>status = 200, headers = jsonHeaders,
       body = Some (ResultBody
         \<lparr>verdict = ''uncertain'', confidence = Fin 50, explanation = ''Parse error.'',
          redFlags = [], sources = [], sourceMode = ''static''\<rparr>)\<rparr>, 3)"
    using fallback af f0 ng f1 fl f2 xf by simp
  have h: "handler_search prose_world example_request =
     (\<lparr>status = 200, headers = jsonHeaders_search,
       body = Some (ResultBody
         \<lparr>verdict = ''uncertain'', confidence = Fin 50,
          explanation = ''Unable to fully parse analysis. Please try again.'',
          redFlags = [], sources = []\<rparr>)\<rparr>, 3)"
    using main a jb s xs by (simp only: t)
  show ?thesis
    using a af c0 n l c1 g0 ng g1 f0 f1 fl f2 jb s x xf xs p g f h by simp
qed

theorem default_explanation_counterexample:
  "extractJson prose_world (Val (JStr ''I cannot verify this.'')) = Inl SyntaxError \<and>
   parseAnalysis prose_world (Val (JStr ''I cannot verify this.'')) \<noteq>
     JObj [(''verdict'', JStr ''uncertain''), (''confidence'', JNum (Fin 50)),
           (''explanation'', JStr ''unable to analyze''), (''redFlags'', JArr [])] \<and>
   body (fst (handler_plain prose_world example_request)) \<noteq>
     Some (ResultBody
       \<lparr>verdict = ''uncertain'', confidence = Fin 50, explanation = ''unable to analyze'',
        redFlags = [], sources = [], sourceMode = ''static''\<rparr>)"
  by (simp add: run_plain examples)


text \<open>The plain pipeline once the evidence has been gathered: the final call is left.\<close>

lemma pipeline_plain_after_evidence:
  assumes "callGemini w 0 = (Inr (GContent decision), n1)"
    and "needsLiveSearch decision = Inr needs"
    and "liveEvidence w needs n1 = (Inr (snips, srcs, mode), n2)"
  shows "pipeline_plain w 0 =
           bind (callGemini w) (\<lambda>analysisRes.
             case analysisRes of
               GError m \<Rightarrow> unit_io (errorResponse 500 (Text m))
             | GContent content \<Rightarrow>
                 bind (lift (sanitize (parseAnalysis w content))) (\<lambda>r.
                   unit_io (okResponse (withSources r mode srcs)))) n2"
  using assms by (simp add: pipeline_plain_def bind_Inr bind_lift_Inr)

lemma final_call_keeps_evidence:
  "yields (bind (callGemini w) (\<lambda>analysisRes.
             case analysisRes of
               GError m \<Rightarrow> unit_io (errorResponse 500 (Text m))
             | GContent content \<Rightarrow>
                 bind (lift (sanitize (parseAnalysis w content))) (\<lambda>r.
                   unit_io (okResponse (withSources r mode srcs)))))
     (\<lambda>resp. \<forall>r. body resp = Some (ResultBody r) \<longrightarrow> sourceMode r = mode \<and> sources r = srcs)"
  by (intro yields_bind_any yields_gemini yields_unit)
     (simp_all add: errorResponse_def okResponse_def new_Response_def withSources_def)

text \<open>Without the key, or with an answer that is not OK, the search reports an error.\<close>

lemma liveEvidence_unavailable:
  assumes "\<not> configured (SERPAPI_KEY w) \<or> (\<exists>res. fetch w n = Resolved res \<and> \<not> ok res)"
  shows "liveEvidence w True n =
           (Inr ([], [], ''static''), if configured (SERPAPI_KEY w) then Suc n else n)"
proof (cases "configured (SERPAPI_KEY w)")
  case False
  then show ?thesis
    by (simp add: liveEvidence_def runLiveSearch_def bind_def unit_io_def noSearch_def
        configured_def)
next
  case True
  then obtain res where "fetch w n = Resolved res" "\<not> ok res" using assms by blast
  then show ?thesis using True
    by (simp add: liveEvidence_def runLiveSearch_def bind_def unit_io_def noSearch_def
        await_fetch_def configured_def)
qed

text \<open>
  Where the search itself reports an error (the key is absent, or the provider answers
  with a status that is not OK), the evidence stage does not fail: it leaves no sources
  and the source mode \<^verbatim>\<open>static\<close>. The request then succeeds with status 200, that mode and
  no sources whenever the final call returns content (and the candidate parsed from it is
  not \<^verbatim>\<open>null\<close>); no response of such a request carries a result with another mode or with
  sources. A failure of the final call is answered with its error.
\<close>

theorem search_error_degrades_to_static:
  assumes "accepted w req"
    and "callGemini w 0 = (Inr (GContent decision), n1)"
    and "needsLiveSearch decision = Inr True"
    and "\<not> configured (SERPAPI_KEY w) \<or> (\<exists>res. fetch w n1 = Resolved res \<and> \<not> ok res)"
  shows "\<exists>n2. liveEvidence w True n1 = (Inr ([], [], ''static''), n2) \<and>
           (\<forall>content n3.
              callGemini w n2 = (Inr (GContent content), n3) \<and> parseAnalysis w content \<noteq> JNull \<longrightarrow>
              (\<exists>r. handler_plain w req =
                      (\<lparr>status = 200, headers = jsonHeaders, body = Some (ResultBody r)\<rparr>, n3) \<and>
                   sourceMode r = ''static'' \<and> sources r = [])) \<and>
           (\<forall>m n3. callGemini w n2 = (Inr (GError m), n3) \<longrightarrow>
              handler_plain w req =
                (\<lparr>status = 500, headers = jsonHeaders, body = Some (ErrorBody (Text m))\<rparr>, n3)) \<and>
           (\<forall>r. body (fst (handler_plain w req)) = Some (ResultBody r) \<longrightarrow>
              sourceMode r = ''static'' \<and> sources r = [])"
proof -
  define n2 where "n2 = (if configured (SERPAPI_KEY w) then Suc n1 else n1)"
  have ev: "liveEvidence w True n1 = (Inr ([], [], ''static''), n2)"
    unfolding n2_def by (rule liveEvidence_unavailable[OF assms(4)])
  note h = handler_accepted(1)[OF assms(1)]
  have ok: "\<exists>r. handler_plain w req =
                      (\<lparr>status = 200, headers = jsonHeaders, body = Some (ResultBody r)\<rparr>, n3) \<and>
                   sourceMode r = ''static'' \<and> sources r = []"
    if c: "callGemini w n2 = (Inr (GContent content), n3)" and p: "parseAnalysis w content \<noteq> JNull"
    for content n3
  proof -
    obtain f where f: "sanitize (parseAnalysis w content) = Inr f"
      using sanitize_total[OF p] by blast
    have "pipeline_plain w 0 = (Inr (okResponse (withSources f ''static'' [])), n3)"
      using pipeline_plain_run[OF assms(2) assms(3) ev c] f by simp
    then show ?thesis
      by (simp add: h catch_all_def okResponse_def new_Response_def withSources_def)
  qed
  have err: "handler_plain w req =
                (\<lparr>status = 500, headers = jsonHeaders, body = Some (ErrorBody (Text m))\<rparr>, n3)"
    if c: "callGemini w n2 = (Inr (GError m), n3)" for m n3
    using pipeline_plain_error[OF assms(2) assms(3) ev c]
    by (simp add: h catch_all_def errorResponse_def new_Response_def)
  have any: "sourceMode r = ''static'' \<and> sources r = []"
    if b: "body (fst (handler_plain w req)) = Some (ResultBody r)" for r
  proof (cases "pipeline_plain w 0")
    case (Pair out k)
    show ?thesis
    proof (cases out)
      case (Inl e)
      then show ?thesis using b Pair
        by (simp add: h catch_all_def errorResponse_def new_Response_def)
    next
      case (Inr resp)
      then have "body resp = Some (ResultBody r)"
        using b Pair by (simp add: h catch_all_def)
      moreover have "\<forall>r. body resp = Some (ResultBody r) \<longrightarrow>
          sourceMode r = ''static'' \<and> sources r = []"
        using final_call_keeps_evidence[of w "''static''" "[]"] Pair Inr
          pipeline_plain_after_evidence[OF assms(2) assms(3) ev]
        unfolding yields_def by metis
      ultimately show ?thesis by blast
    qed
  qed
  show ?thesis
    using ev ok err any by blast
qed

theorem search_error_degrades_to_static_witness:
  "accepted example_world example_request \<and>
   callGemini example_world 0 = (Inr (GContent (Val (JStr ''LIVE_SEARCH_REQUIRED''))), 1) \<and>
   needsLiveSearch (Val (JStr ''LIVE_SEARCH_REQUIRED'')) = Inr True \<and>
   \<not> configured (SERPAPI_KEY example_world) \<and>
   liveEvidence example_world True 1 = (Inr ([], [], ''static''), 1) \<and>
   callGemini example_world 1 = (Inr (GContent (Val (JStr example_answer))), 2) \<and>
   parseAnalysis example_world (Val (JStr example_answer)) \<noteq> JNull \<and>
   handler_plain example_world example_request =
     (\<lparr>status = 200, headers = jsonHeaders,
       body = Some (ResultBody \<lparr>verdict = ''fake'', confidence = Fin 88,
         explanation = ''No such event.'', redFlags = [''no source''], sources = [],
         sourceMode = ''static''\<rparr>)\<rparr>, 2)"
proof -
  have a: "accepted example_world example_request"
    by (simp add: accepted_def examples rejected_def trim_def is_ws_def configured_def)
  have c0: "callGemini example_world 0 =
      (Inr (GContent (Val (JStr ''LIVE_SEARCH_REQUIRED''))), 1)"
    by (simp add: run_plain examples)
  have c1: "callGemini example_world 1 = (Inr (GContent (Val (JStr example_answer))), 2)"
    by (simp add: run_plain examples)
  have n: "needsLiveSearch (Val (JStr ''LIVE_SEARCH_REQUIRED'')) = Inr True"
    by (simp add: trim_def is_ws_def)
  have k: "\<not> configured (SERPAPI_KEY example_world)"
    by (simp add: configured_def example_world_def)
  have p: "parseAnalysis example_world (Val (JStr example_answer)) \<noteq> JNull"
    by (simp add: run_plain examples)
  have run: "handler_plain example_world example_request =
     (\<lparr>status = 200, headers = jsonHeaders,
       body = Some (ResultBody \<lparr>verdict = ''fake'', confidence = Fin 88,
         explanation = ''No such event.'', redFlags = [''no source''], sources = [],
         sourceMode = ''static''\<rparr>)\<rparr>, 2)"
    by (simp add: run_plain examples)
  have l: "liveEvidence example_world True 1 = (Inr ([], [], ''static''), 1)"
    using search_error_degrades_to_static[OF a c0 n disjI1[OF k]]
    by (auto simp: liveEvidence_def runLiveSearch_def unit_io_def bind_def noSearch_def
        example_world_def configured_def)
  show ?thesis using a c0 c1 n k p run l by simp
qed

text \<open>
  C8. The text of the request is classified as requiring live evidence, the search key is
  set, and the search provider cannot be reached: the call of \<^verbatim>\<open>fetch\<close> in \<^verbatim>\<open>runLiveSearch\<close> is rejected.
  The handler's own comment on a failed search reads
  \<^verbatim>\<open>still continue with static model if search fails\<close>, and a result with the source mode
  \<^verbatim>\<open>static\<close> and no sources is what is asked for. But \<^verbatim>\<open>runLiveSearch\<close> awaits \<^verbatim>\<open>fetch\<close> in no
  \<^verbatim>\<open>try\<close>: the rejection is thrown to the \<^verbatim>\<open>catch\<close> around the handler's body, and the
  request is answered with status 500 and the message of the rejection. The final
  prompt is never sent: two calls of \<^verbatim>\<open>fetch\<close> have been made.
\<close>

theorem unreachable_search_gets_500:
  "callGemini unreachable_world 0 =
     (Inr (GContent (Val (JStr ''LIVE_SEARCH_REQUIRED''))), 1) \<and>
   needsLiveSearch (Val (JStr ''LIVE_SEARCH_REQUIRED'')) = Inr True \<and>
   configured (SERPAPI_KEY unreachable_world) \<and>
   fetch unreachable_world 1 = Rejected \<and>
   runLiveSearch unreachable_world 1 = (Inl FetchRejected, 2) \<and>
   liveEvidence unreachable_world True 1 = (Inl FetchRejected, 2) \<and>
   handler_plain unreachable_world example_request =
     (\<lparr>status = 500, headers = jsonHeaders,
       body = Some (ErrorBody (EngineText FetchRejected))\<rparr>, 2)"
  by (simp add: run_plain examples unreachable_world_def)

subsection \<open>Computations that always return\<close>

lemma returns_unit: "P x \<Longrightarrow> returns (unit_io x) P"
  by (simp add: returns_def unit_io_def)

lemma returns_bind:
  assumes "returns m Q" and "\<And>x. Q x \<Longrightarrow> returns (f x) P"
  shows "returns (bind m f) P"
  unfolding returns_def
proof
  fix n
  obtain x k where m: "m n = (Inr x, k)" "Q x"
    using assms(1) unfolding returns_def by blast
  obtain y k' where "f x k = (Inr y, k')" "P y"
    using assms(2)[OF m(2)] unfolding returns_def by blast
  then show "\<exists>y n'. bind m f n = (Inr y, n') \<and> P y"
    using m(1) by (simp add: bind_def)
qed

lemma returns_try_catch:
  assumes "yields m P" and "\<And>e. returns (h e) P"
  shows "returns (try_catch m h) P"
  unfolding returns_def
proof
  fix n
  obtain r k where m: "m n = (r, k)" by (cases "m n")
  show "\<exists>x n'. try_catch m h n = (Inr x, n') \<and> P x"
  proof (cases r)
    case (Inl e)
    obtain y k' where "h e k = (Inr y, k')" "P y"
      using assms(2)[of e] unfolding returns_def by blast
    then show ?thesis using m Inl by (simp add: try_catch_def)
  next
    case (Inr x)
    then have "P x" using assms(1) m unfolding yields_def by blast
    then show ?thesis using m Inr by (simp add: try_catch_def)
  qed
qed

lemma returns_if:
  "(c \<Longrightarrow> returns a P) \<Longrightarrow> (\<not> c \<Longrightarrow> returns b P) \<Longrightarrow> returns (if c then a else b) P"
  by simp

subsection \<open>performWebSearch\<close>

lemma mapE_length: "mapE f xs = Inr ys \<Longrightarrow> length ys = length xs"
proof (induction xs arbitrary: ys)
  case Nil
  then show ?case by simp
next
  case (Cons x xs)
  then show ?case by (auto simp: bindE_def split: sum.splits)
qed

lemma slice5_length: "slice5 v = Inr xs \<Longrightarrow> length xs \<le> 5"
  by (cases v rule: slice5.cases) auto

lemma yields_slice5:
  "(\<And>xs. length xs \<le> 5 \<Longrightarrow> yields (f xs) P) \<Longrightarrow> yields (bind (lift (slice5 v)) f) P"
  by (rule yields_bind[where Q = "\<lambda>xs. length xs \<le> 5"]) (auto intro: yields_lift slice5_length)

lemma yields_mapE:
  "(\<And>ys. length ys = length xs \<Longrightarrow> yields (g ys) P) \<Longrightarrow> yields (bind (lift (mapE f xs)) g) P"
  by (rule yields_bind[where Q = "\<lambda>ys. length ys = length xs"])
     (auto intro: yields_lift mapE_length)

lemma trySerp_returns: "returns (trySerp w query) atMost5"
  unfolding trySerp_def
proof (rule returns_try_catch)
  show "yields (bind (lift (toText w query)) (\<lambda>queryText.
        bind (await_fetch w) (\<lambda>res.
          if ok res then
            bind (lift (res_json res)) (\<lambda>data.
            bind (lift (getProp (Val data) ''organic_results'')) (\<lambda>organic.
            bind (lift (slice5 (or_else organic (Val (JArr []))))) (\<lambda>results.
            bind (lift (mapE serpSource results)) (\<lambda>rs.
              unit_io (Some rs)))))
          else unit_io None))) atMost5"
    by (intro yields_slice5 yields_mapE yields_bind_any yields_if yields_unit)
       (simp_all add: atMost5_def)
next
  fix e show "returns (unit_io None) atMost5"
    by (simp add: returns_unit atMost5_def)
qed

lemma tryListed_length: "tryListed w content = Inr (Some rs) \<Longrightarrow> length rs \<le> 5"
  by (cases "(w, content)" rule: tryListed.cases)
     (auto simp: bindE_def split: option.splits json.splits sum.splits dest!: mapE_length)

lemma geminiSearch_returns: "returns (geminiSearch w query) (\<lambda>rs. length rs \<le> 5)"
  unfolding geminiSearch_def
proof (rule returns_try_catch)
  fix e show "returns (unit_io []) (\<lambda>rs. length rs \<le> 5)"
    by (simp add: returns_unit)
next
  have listed: "yields (case tryListed w content of
                       Inr (Some rs) \<Rightarrow> unit_io rs
                     | Inr None \<Rightarrow> unit_io []
                     | Inl ignored \<Rightarrow> unit_io []) (\<lambda>rs. length rs \<le> 5)" for content
    by (auto split: sum.splits option.splits intro!: yields_unit dest: tryListed_length)
  have chunks: "yields (if truthy c then
                      bind (lift (getProp meta ''grounding_chunks'')) (\<lambda>a.
                      bind (lift (getProp meta ''groundingChunks'')) (\<lambda>b.
                      bind (lift (iterate (coalesce (coalesce a b) (Val (JArr []))))) (\<lambda>chunks.
                      bind (lift (chunkSources chunks [])) (\<lambda>found.
                        unit_io (if length found > 0 then Some (take 5 found) else None)))))
                    else unit_io None) atMost5" for c meta
    by (intro yields_bind_any yields_if yields_unit) (simp_all add: atMost5_def)
  show "yields (bind (lift (toText w query)) (\<lambda>queryText.
        bind (await_fetch w) (\<lambda>res.
          if \<not> ok res then unit_io []
          else
            bind (lift (res_json res)) (\<lambda>data.
            bind (lift (getProp (Val data) ''choices'')) (\<lambda>choices.
              let content =
                    or_else (optProp (optProp (optIndex0 choices) ''message'') ''content'') (str []);
                  choice = optIndex0 choices;
                  meta = groundingMeta data choice
              in
              bind (if truthy (or_else (optProp meta ''grounding_chunks'')
                                       (optProp meta ''groundingChunks''))
                    then
                      bind (lift (getProp meta ''grounding_chunks'')) (\<lambda>a.
                      bind (lift (getProp meta ''groundingChunks'')) (\<lambda>b.
                      bind (lift (iterate (coalesce (coalesce a b) (Val (JArr []))))) (\<lambda>chunks.
                      bind (lift (chunkSources chunks [])) (\<lambda>found.
                        unit_io (if length found > 0 then Some (take 5 found) else None)))))
                    else unit_io None) (\<lambda>returned.
                case returned of
                  Some rs \<Rightarrow> unit_io rs
                | None \<Rightarrow>
                    (case tryListed w content of
                       Inr (Some rs) \<Rightarrow> unit_io rs
                     | Inr None \<Rightarrow> unit_io []
                     | Inl ignored \<Rightarrow> unit_io [])))))))
        (\<lambda>rs. length rs \<le> 5)"
    unfolding Let_def
  proof (intro yields_bind[where Q = atMost5, OF chunks] yields_bind_any yields_if)
    fix queryText res data choices returned
    assume "atMost5 returned"
    then show "yields (case returned of
                  Some rs \<Rightarrow> unit_io rs
                | None \<Rightarrow>
                    (case tryListed w (or_else
                        (optProp (optProp (optIndex0 choices) ''message'') ''content'') (str [])) of
                       Inr (Some rs) \<Rightarrow> unit_io rs
                     | Inr None \<Rightarrow> unit_io []
                     | Inl ignored \<Rightarrow> unit_io [])) (\<lambda>rs. length rs \<le> 5)"
      using listed by (cases returned) (auto simp: atMost5_def intro: yields_unit)
  qed (simp add: yields_unit)
qed

lemma performWebSearch_returns: "returns (performWebSearch w query) (\<lambda>rs. length rs \<le> 5)"
  unfolding performWebSearch_def
proof (rule returns_bind[where Q = atMost5])
  show "returns (if configured (SERPAPI_KEY w) then trySerp w query else unit_io None) atMost5"
    by (simp add: trySerp_returns returns_unit atMost5_def)
next
  fix returned assume "atMost5 returned"
  then show "returns (case returned of
         Some rs \<Rightarrow> unit_io rs
       | None \<Rightarrow> if \<not> configured (LOVABLE_API_KEY w) then unit_io [] else geminiSearch w query)
      (\<lambda>rs. length rs \<le> 5)"
    by (cases returned) (auto simp: atMost5_def intro: returns_unit geminiSearch_returns)
qed

text \<open>
  C10. For every query, whatever the two keys and whatever the outcome of each call (a
  rejected \<^verbatim>\<open>fetch\<close>, a status that is not OK, a body that is not JSON or has another
  shape, content that does not parse), \<^verbatim>\<open>performWebSearch\<close> returns: its result is a list of
  at most 5 source records, never an exception. With neither key it returns the empty
  list and fetches nothing.
\<close>

theorem performWebSearch_total:
  "(\<exists>rs n'. performWebSearch w query n = (Inr rs, n') \<and> length rs \<le> 5) \<and>
   (\<not> configured (SERPAPI_KEY w) \<and> \<not> configured (LOVABLE_API_KEY w) \<longrightarrow>
      performWebSearch w query n = (Inr [], n))"
proof
  show "\<exists>rs n'. performWebSearch w query n = (Inr rs, n') \<and> length rs \<le> 5"
    using performWebSearch_returns[of w query] unfolding returns_def by blast
next
  show "\<not> configured (SERPAPI_KEY w) \<and> \<not> configured (LOVABLE_API_KEY w) \<longrightarrow>
      performWebSearch w query n = (Inr [], n)"
    by (simp add: performWebSearch_def bind_def unit_io_def)
qed

subsection \<open>Merging the results of the searches\<close>

lemma strictEq_text:
  "strictEq a (Val (JStr u)) \<longleftrightarrow> a = Val (JStr u)"
  "strictEq (Val (JStr u)) a \<longleftrightarrow> a = Val (JStr u)"
proof -
  show "strictEq a (Val (JStr u)) \<longleftrightarrow> a = Val (JStr u)"
  proof (cases a)
    case (Val j)
    then show ?thesis by (cases j) simp_all
  qed simp_all
  show "strictEq (Val (JStr u)) a \<longleftrightarrow> a = Val (JStr u)"
  proof (cases a)
    case (Val j)
    then show ?thesis by (cases j) auto
  qed simp_all
qed

lemma mergeResults_firstSeen:
  "mergeResults w rs (S, L) =
     bindE (mapE (evidenceLine w) (firstSeen (filter (\<lambda>x. \<not> list_ex (\<lambda>s. sameUrl s x) S) rs)))
       (\<lambda>lines. Inr (S @ firstSeen (filter (\<lambda>x. \<not> list_ex (\<lambda>s. sameUrl s x) S) rs), L @ lines))"
proof (induction rs arbitrary: S L)
  case Nil
  then show ?case by (simp add: bindE_def)
next
  case (Cons r rs)
  show ?case
  proof (cases "list_ex (\<lambda>s. sameUrl s r) S")
    case True
    then show ?thesis using Cons.IH[of S L] by (simp add: sameUrl_def)
  next
    case False
    have "filter (\<lambda>x. \<not> list_ex (\<lambda>s. sameUrl s x) (S @ [r])) rs =
          filter (\<lambda>x. \<not> list_ex (\<lambda>s. sameUrl s x) S \<and> \<not> sameUrl r x) rs"
      by (rule filter_cong) (auto simp: list_ex_iff)
    then show ?thesis
      using False Cons.IH[of "S @ [r]"]
      by (cases "evidenceLine w r") (auto simp: sameUrl_def bindE_def split: sum.splits)
  qed
qed

lemma mergeResults_append:
  "mergeResults w (xs @ ys) acc = bindE (mergeResults w xs acc) (mergeResults w ys)"
proof (induction xs arbitrary: acc)
  case Nil
  then show ?case by (simp add: bindE_def)
next
  case (Cons x xs)
  then show ?case
    by (cases acc; cases "evidenceLine w x") (simp_all add: bindE_def)
qed

lemma mapE_take: "mapE f xs = Inr ys \<Longrightarrow> mapE f (take k xs) = Inr (take k ys)"
proof (induction xs arbitrary: ys k)
  case Nil
  then show ?case by simp
next
  case (Cons x xs)
  then show ?case
    by (cases k) (auto simp: bindE_def split: sum.splits)
qed

lemma mapE_rendered:
  "\<forall>x \<in> set xs. \<exists>y. f x = Inr y \<Longrightarrow> \<exists>ys. mapE f xs = Inr ys"
  by (induction xs) (auto simp: bindE_def)

lemma evidenceLine_rendered: "rendered r \<Longrightarrow> \<exists>line. evidenceLine w r = Inr line"
  by (simp add: rendered_def evidenceLine_def toText_def bindE_def)

lemma set_firstSeen: "set (firstSeen xs) \<subseteq> set xs"
  by (induction xs rule: firstSeen.induct) auto

lemma subseq_firstSeen: "subseq (firstSeen xs) xs"
proof (induction xs rule: firstSeen.induct)
  case 1
  then show ?case by simp
next
  case (2 r rs)
  have "subseq (filter (\<lambda>x. \<not> sameUrl r x) rs) rs" by simp
  with 2 have "subseq (firstSeen (filter (\<lambda>x. \<not> sameUrl r x) rs)) rs"
    by (rule subseq_order.trans)
  then show ?case by simp
qed

lemma firstSeen_no_repeat: "sorted_wrt (\<lambda>a b. \<not> sameUrl a b) (firstSeen xs)"
proof (induction xs rule: firstSeen.induct)
  case 1
  then show ?case by simp
next
  case (2 r rs)
  have "\<forall>m \<in> set (firstSeen (filter (\<lambda>x. \<not> sameUrl r x) rs)). \<not> sameUrl r m"
    using set_firstSeen[of "filter (\<lambda>x. \<not> sameUrl r x) rs"] by auto
  with 2 show ?case unfolding firstSeen.simps sorted_wrt.simps by blast
qed

lemma no_repeat_once:
  "sorted_wrt (\<lambda>a b. \<not> sameUrl a b) M \<Longrightarrow> length (filter (\<lambda>m. url m = Val (JStr u)) M) \<le> 1"
proof (induction M)
  case Nil
  then show ?case by simp
next
  case (Cons x M)
  show ?case
  proof (cases "url x = Val (JStr u)")
    case True
    then have "\<forall>m \<in> set M. url m \<noteq> Val (JStr u)"
      using Cons.prems by (auto simp: sameUrl_def strictEq_text)
    then have "filter (\<lambda>m. url m = Val (JStr u)) M = []" by (simp add: filter_empty_conv)
    then show ?thesis using True by simp
  next
    case False
    then show ?thesis using Cons by simp
  qed
qed

lemma find_filter_same:
  "(\<forall>x \<in> set xs. P x \<longrightarrow> Q x) \<Longrightarrow> find P (filter Q xs) = find P xs"
  by (induction xs) auto


lemma firstSeen_first:
  "m \<in> set (firstSeen xs) \<Longrightarrow> url m = Val (JStr u) \<Longrightarrow>
   find (\<lambda>x. url x = Val (JStr u)) xs = Some m"
proof (induction xs rule: firstSeen.induct)
  case 1
  then show ?case by simp
next
  case (2 r rs)
  let ?rest = "filter (\<lambda>x. \<not> sameUrl r x) rs"
  show ?case
  proof (cases "url r = Val (JStr u)")
    case True
    have "m = r"
    proof (rule ccontr)
      assume "m \<noteq> r"
      then have "m \<in> set ?rest" using "2.prems"(1) set_firstSeen[of ?rest] by auto
      then have "\<not> sameUrl r m" by simp
      then show False using True "2.prems"(2) by (simp add: sameUrl_def)
    qed
    then show ?thesis using True by simp
  next
    case False
    then have "m \<noteq> r" using "2.prems"(2) by auto
    then have "m \<in> set (firstSeen ?rest)" using "2.prems"(1) by simp
    then have "find (\<lambda>x. url x = Val (JStr u)) ?rest = Some m"
      using "2.IH" "2.prems"(2) by simp
    moreover have "\<forall>x \<in> set rs. url x = Val (JStr u) \<longrightarrow> \<not> sameUrl r x"
      using False by (auto simp: sameUrl_def strictEq_text)
    ultimately have "find (\<lambda>x. url x = Val (JStr u)) rs = Some m"
      by (simp add: find_filter_same)
    then show ?thesis using False by simp
  qed
qed

lemma firstSeen_covers:
  "x \<in> set xs \<Longrightarrow> url x = Val (JStr u) \<Longrightarrow> \<exists>m \<in> set (firstSeen xs). url m = Val (JStr u)"
proof (induction xs rule: firstSeen.induct)
  case 1
  then show ?case by simp
next
  case (2 r rs)
  show ?case
  proof (cases "url r = Val (JStr u)")
    case True
    then show ?thesis by simp
  next
    case False
    then have "x \<in> set (filter (\<lambda>y. \<not> sameUrl r y) rs)"
      using "2.prems" by (auto simp: sameUrl_def strictEq_text)
    then show ?thesis using "2.IH" "2.prems"(2) by auto
  qed
qed

text \<open>The searches of the loop return one list for each query.\<close>

lemma length_searchResults: "length (searchResults w queries n) = length queries"
proof (induction queries arbitrary: n)
  case Nil
  then show ?case by simp
next
  case (Cons q qs)
  obtain rs k where "performWebSearch w q n = (Inr rs, k)"
    using performWebSearch_returns[of w q] unfolding returns_def by blast
  then show ?case using Cons.IH[of k] by simp
qed

text \<open>The loop over the queries merges the lists that its searches return.\<close>

lemma searchAll_merges:
  "fst (searchAll w queries acc n) = mergeResults w (concat (searchResults w queries n)) acc"
proof (induction queries arbitrary: acc n)
  case Nil
  then show ?case by (cases acc) (simp add: unit_io_def)
next
  case (Cons q qs)
  obtain rs k where rs: "performWebSearch w q n = (Inr rs, k)"
    using performWebSearch_returns[of w q] unfolding returns_def by blast
  show ?case
  proof (cases "mergeResults w rs acc")
    case (Inl e)
    then show ?thesis using rs
      by (simp add: bind_def lift_def mergeResults_append bindE_def)
  next
    case (Inr merged)
    then show ?thesis using rs Cons.IH[of merged k]
      by (simp add: bind_def lift_def mergeResults_append bindE_def)
  qed
qed

lemma gatherEvidence_merges:
  "fst (gatherEvidence w queries n) =
     bindE (mapE (evidenceLine w) (firstSeen (concat (searchResults w (take 3 queries) n))))
       (\<lambda>lines. Inr (take 8 (firstSeen (concat (searchResults w (take 3 queries) n))),
                     join newline (take 8 lines)))"
proof -
  have "fst (gatherEvidence w queries n) =
      bindE (fst (searchAll w (take 3 queries) ([], []) n))
        (\<lambda>(allSources, allSnippets).
           Inr (take 8 allSources, join newline (take 8 allSnippets)))"
    by (cases "searchAll w (take 3 queries) ([], []) n")
       (auto simp: gatherEvidence_def bind_def unit_io_def bindE_def split: sum.splits)
  then show ?thesis
    by (simp only: searchAll_merges mergeResults_firstSeen)
       (simp add: bindE_def split: sum.splits)
qed


text \<open>
  C6. The loop of \<^verbatim>\<open>callGeminiWithSearch\<close> runs at most three queries, one search each, and
  what it hands on is made of the lists that these searches return: the concatenation of
  the lists with, for each URL, only the record seen first (its title and snippet with
  it), in the order in which the records were first seen; of that merged list the first 8
  records are the sources, and the lines rendered for them, in the same order, are the
  evidence of the prompt. The loop throws only where the line of a merged record cannot
  be rendered, and every record whose title, snippet and URL have a text can be. For every
  sequence of result lists, no two records of the merged list have equal URLs, the record
  kept for a URL is the first one seen, nothing that was seen is lost, and the order is
  the order of the lists.
\<close>

theorem evidence_merged_by_url:
  "length (searchResults w (take 3 queries) n) = length (take 3 queries) \<and>
   length (searchResults w (take 3 queries) n) \<le> 3 \<and>
   fst (gatherEvidence w queries n) =
     bindE (mapE (evidenceLine w) (firstSeen (concat (searchResults w (take 3 queries) n))))
       (\<lambda>lines. Inr (take 8 (firstSeen (concat (searchResults w (take 3 queries) n))),
                     join newline (take 8 lines))) \<and>
   (fst (gatherEvidence w queries n) = Inr (topSources, evidenceText) \<longrightarrow>
      topSources = take 8 (firstSeen (concat (searchResults w (take 3 queries) n))) \<and>
      length topSources \<le> 8 \<and>
      (\<exists>shown. mapE (evidenceLine w) topSources = Inr shown \<and> evidenceText = join newline shown)) \<and>
   (mapE (evidenceLine w) rs = Inr lines \<longrightarrow>
      length lines = length rs \<and> mapE (evidenceLine w) (take 8 rs) = Inr (take 8 lines)) \<and>
   ((\<forall>r \<in> set rs. rendered r) \<longrightarrow> (\<exists>lines. mapE (evidenceLine w) rs = Inr lines)) \<and>
   sorted_wrt (\<lambda>a b. \<not> strictEq (url a) (url b)) (firstSeen (concat rss)) \<and>
   (\<forall>u. length (filter (\<lambda>m. url m = str u) (firstSeen (concat rss))) \<le> 1) \<and>
   (\<forall>m u. m \<in> set (firstSeen (concat rss)) \<and> url m = str u \<longrightarrow>
      find (\<lambda>x. url x = str u) (concat rss) = Some m) \<and>
   (\<forall>x u. x \<in> set (concat rss) \<and> url x = str u \<longrightarrow>
      (\<exists>m \<in> set (firstSeen (concat rss)). url m = str u)) \<and>
   subseq (firstSeen (concat rss)) (concat rss) \<and>
   length (take 8 (firstSeen (concat rss))) \<le> 8"
proof -
  have no_repeat: "sorted_wrt (\<lambda>a b. \<not> sameUrl a b) (firstSeen (concat rss))"
    by (rule firstSeen_no_repeat)
  have 1: "length (searchResults w (take 3 queries) n) = length (take 3 queries)"
    by (rule length_searchResults)
  have 2: "length (searchResults w (take 3 queries) n) \<le> 3"
    by (simp add: length_searchResults)
  have 3: "fst (gatherEvidence w queries n) =
     bindE (mapE (evidenceLine w) (firstSeen (concat (searchResults w (take 3 queries) n))))
       (\<lambda>lines. Inr (take 8 (firstSeen (concat (searchResults w (take 3 queries) n))),
                     join newline (take 8 lines)))"
    by (rule gatherEvidence_merges)
  have shape: "fst (gatherEvidence w queries n) = Inr (topSources, evidenceText) \<longrightarrow>
      topSources = take 8 (firstSeen (concat (searchResults w (take 3 queries) n))) \<and>
      length topSources \<le> 8 \<and>
      (\<exists>shown. mapE (evidenceLine w) topSources = Inr shown \<and> evidenceText = join newline shown)"
  proof
    assume r: "fst (gatherEvidence w queries n) = Inr (topSources, evidenceText)"
    let ?M = "firstSeen (concat (searchResults w (take 3 queries) n))"
    obtain ls where ls: "mapE (evidenceLine w) ?M = Inr ls"
      using r 3 by (cases "mapE (evidenceLine w) ?M") (simp_all add: bindE_def)
    then have t: "topSources = take 8 ?M" and e: "evidenceText = join newline (take 8 ls)"
      using r 3 by (simp_all add: bindE_def)
    have "mapE (evidenceLine w) topSources = Inr (take 8 ls)"
      unfolding t by (rule mapE_take[OF ls])
    then show "topSources = take 8 ?M \<and> length topSources \<le> 8 \<and>
      (\<exists>shown. mapE (evidenceLine w) topSources = Inr shown \<and> evidenceText = join newline shown)"
      using t e by simp
  qed
  have 4: "mapE (evidenceLine w) rs = Inr lines \<longrightarrow>
      length lines = length rs \<and> mapE (evidenceLine w) (take 8 rs) = Inr (take 8 lines)"
    using mapE_length[of "evidenceLine w" rs lines] mapE_take[of "evidenceLine w" rs lines 8]
    by blast
  have 5: "(\<forall>r \<in> set rs. rendered r) \<longrightarrow> (\<exists>lines. mapE (evidenceLine w) rs = Inr lines)"
    using mapE_rendered[of rs "evidenceLine w"] evidenceLine_rendered[of _ w] by blast
  have 6: "sorted_wrt (\<lambda>a b. \<not> strictEq (url a) (url b)) (firstSeen (concat rss))"
    using no_repeat by (simp only: sameUrl_def)
  have 7: "\<forall>u. length (filter (\<lambda>m. url m = str u) (firstSeen (concat rss))) \<le> 1"
    using no_repeat_once[OF no_repeat] by (simp add: str_def)
  have 8: "\<forall>m u. m \<in> set (firstSeen (concat rss)) \<and> url m = str u \<longrightarrow>
      find (\<lambda>x. url x = str u) (concat rss) = Some m"
    using firstSeen_first[of _ "concat rss"] by (simp add: str_def)
  have 9: "\<forall>x u. x \<in> set (concat rss) \<and> url x = str u \<longrightarrow>
      (\<exists>m \<in> set (firstSeen (concat rss)). url m = str u)"
    using firstSeen_covers[of _ "concat rss"] by (simp only: str_def) blast
  have 10: "subseq (firstSeen (concat rss)) (concat rss)"
    by (rule subseq_firstSeen)
  have 11: "length (take 8 (firstSeen (concat rss))) \<le> 8" by simp
  show ?thesis using 1 2 3 shape 4 5 6 7 8 9 10 11 by blast
qed

theorem evidence_merged_by_url_witness:
  "searchResults results_world [str ''moon'', str ''mars''] 0 =
     [[src ''First'' ''u1'' ''a'', src ''Second'' ''u2'' ''b''],
      [src ''Third'' ''u1'' ''c'', src ''Fourth'' ''u3'' ''d'']] \<and>
   rendered (src ''First'' ''u1'' ''a'') \<and> rendered (src ''Second'' ''u2'' ''b'') \<and>
   rendered (src ''Fourth'' ''u3'' ''d'') \<and>
   mapE (evidenceLine results_world)
     [src ''First'' ''u1'' ''a'', src ''Second'' ''u2'' ''b'', src ''Fourth'' ''u3'' ''d''] =
     Inr [''- First: a (u1)'', ''- Second: b (u2)'', ''- Fourth: d (u3)''] \<and>
   fst (gatherEvidence results_world [str ''moon'', str ''mars''] 0) =
     Inr ([src ''First'' ''u1'' ''a'', src ''Second'' ''u2'' ''b'', src ''Fourth'' ''u3'' ''d''],
          ''- First: a (u1)'' @ newline @ ''- Second: b (u2)'' @ newline @ ''- Fourth: d (u3)'') \<and>
   src ''First'' ''u1'' ''a'' \<in>
     set (firstSeen (concat [[src ''First'' ''u1'' ''a'', src ''Second'' ''u2'' ''b''],
                             [src ''Third'' ''u1'' ''c'', src ''Fourth'' ''u3'' ''d'']])) \<and>
   url (src ''First'' ''u1'' ''a'') = str ''u1'' \<and>
   find (\<lambda>x. url x = str ''u1'')
     (concat [[src ''First'' ''u1'' ''a'', src ''Second'' ''u2'' ''b''],
              [src ''Third'' ''u1'' ''c'', src ''Fourth'' ''u3'' ''d'']]) =
     Some (src ''First'' ''u1'' ''a'')"
proof -
  have found: "searchResults results_world [str ''moon'', str ''mars''] 0 =
     [[src ''First'' ''u1'' ''a'', src ''Second'' ''u2'' ''b''],
      [src ''Third'' ''u1'' ''c'', src ''Fourth'' ''u3'' ''d'']]"
    by (simp add: performWebSearch_def trySerp_def try_catch_def bind_def lift_def toText_def
        textual_def await_fetch_def results_world_def organic_def ok_def res_json_def
        or_else_def serpSource_def bindE_def unit_io_def configured_def str_def src_def)
  have merged: "firstSeen (concat [[src ''First'' ''u1'' ''a'', src ''Second'' ''u2'' ''b''],
                             [src ''Third'' ''u1'' ''c'', src ''Fourth'' ''u3'' ''d'']]) =
      [src ''First'' ''u1'' ''a'', src ''Second'' ''u2'' ''b'', src ''Fourth'' ''u3'' ''d'']"
    by (simp add: sameUrl_def src_def str_def)
  have lines: "mapE (evidenceLine results_world)
     [src ''First'' ''u1'' ''a'', src ''Second'' ''u2'' ''b'', src ''Fourth'' ''u3'' ''d''] =
     Inr [''- First: a (u1)'', ''- Second: b (u2)'', ''- Fourth: d (u3)'']"
    by (simp add: evidenceLine_def toText_def textual_def bindE_def results_world_def src_def
        str_def)
  have shown: "rendered (src ''First'' ''u1'' ''a'')" "rendered (src ''Second'' ''u2'' ''b'')"
    "rendered (src ''Fourth'' ''u3'' ''d'')"
    by (simp_all add: rendered_def textual_def src_def str_def)
  show ?thesis
    using evidence_merged_by_url[where w = results_world
        and queries = "[str ''moon'', str ''mars'']" and n = 0
        and topSources = "[src ''First'' ''u1'' ''a'', src ''Second'' ''u2'' ''b'', src ''Fourth'' ''u3'' ''d'']"
        and evidenceText =
          "''- First: a (u1)'' @ newline @ ''- Second: b (u2)'' @ newline @ ''- Fourth: d (u3)''"
        and rs = "[src ''First'' ''u1'' ''a'', src ''Second'' ''u2'' ''b'', src ''Fourth'' ''u3'' ''d'']"
        and lines = "[''- First: a (u1)'', ''- Second: b (u2)'', ''- Fourth: d (u3)'']"
        and rss =
        "[[src ''First'' ''u1'' ''a'', src ''Second'' ''u2'' ''b''],
          [src ''Third'' ''u1'' ''c'', src ''Fourth'' ''u3'' ''d'']]"]
      found merged lines shown
    by (simp add: bindE_def newline_def src_def str_def)
qed

theorem performWebSearch_total_witness:
  "\<not> configured (SERPAPI_KEY (example_world\<lparr>LOVABLE_API_KEY := None\<rparr>)) \<and>
   \<not> configured (LOVABLE_API_KEY (example_world\<lparr>LOVABLE_API_KEY := None\<rparr>)) \<and>
   performWebSearch (example_world\<lparr>LOVABLE_API_KEY := None\<rparr>) (str ''moon'') 0 = (Inr [], 0)"
  using performWebSearch_total[of "example_world\<lparr>LOVABLE_API_KEY := None\<rparr>" "str ''moon''" 0]
  by (simp add: example_world_def configured_def)

end
